theory Spec2Isabelle
  imports Complex_Main
begin

section \<open>The inference provider (AISDKProvider.runInference)\<close>

text \<open>
  The values a model backend hands back are JSON values. An object is the list of its
  own properties (the keys of a JavaScript object are distinct); numbers are the
  integers, which is all the response handling looks at.
\<close>

datatype json =
    JNull
  | JBool bool
  | JNum int
  | JStr string
  | JArr "json list"
  | JObj "(string \<times> json) list"

text \<open>What \<open>schema.parse\<close> throws: the list of issues of a Zod error.\<close>

type_synonym zod_error = "string list"

datatype error =
    NoCredentialError string
  | SchemaValidationError zod_error
  | BackendError string
  | PlatformError string
  | ReviewError string
  | FileIOError string

text \<open>
  The schema of a request is a Zod schema. The library is not part of the repository, so
  a schema is what the provider uses of it: \<open>parse\<close>, which returns the parsed
  value or throws, and the JSON schema \<open>zodToJsonSchema\<close> derives from it.
\<close>

record schema =
  parse :: "json \<Rightarrow> zod_error + json"
  json_schema :: json

record inference_config =
  prompt :: string
  temperature :: "real option"
  system :: "string option"
  schema :: schema

text \<open>The argument of \<open>generateObject\<close>, and the backend as the function that answers it.\<close>

record generate_request =
  api_key :: string
  model_name :: string
  req_prompt :: string
  req_temperature :: real
  req_system :: "string option"
  req_schema :: json

record generate_result =
  object :: json
  usage :: string

type_synonym backend = "generate_request \<Rightarrow> error + generate_result"

text \<open>Truthiness of a string that may be undefined (\<open>if (process.env.X)\<close>).\<close>

definition truthy :: "string option \<Rightarrow> bool" where
  "truthy v = (case v of None \<Rightarrow> False | Some s \<Rightarrow> s \<noteq> [])"

text \<open>\<open>temperature || 0\<close>: an omitted temperature is 0 (and 0 stays 0).\<close>

definition temperature_or_zero :: "real option \<Rightarrow> real" where
  "temperature_or_zero t = (case t of None \<Rightarrow> 0 | Some x \<Rightarrow> x)"

definition sentinel_key :: string where
  "sentinel_key = ''$PARAMETER_NAME''"

text \<open>
  \<open>object && typeof object === 'object' && '$PARAMETER_NAME' in object\<close>: null is
  falsy; booleans, numbers and strings are not of type object; an array is, but its
  keys are its indices and \<open>length\<close>; an object has the key when it is one of its
  properties.
\<close>

fun has_sentinel :: "json \<Rightarrow> bool" where
  "has_sentinel (JObj props) = (sentinel_key \<in> set (map fst props))"
| "has_sentinel _ = False"

text \<open>\<open>object['$PARAMETER_NAME']\<close>, read only where the key is present.\<close>

fun sentinel_payload :: "json \<Rightarrow> json option" where
  "sentinel_payload (JObj props) = map_of props sentinel_key"
| "sentinel_payload _ = None"

definition zod_parse :: "schema \<Rightarrow> json \<Rightarrow> error + json" where
  "zod_parse S v = (case parse S v of Inl issues \<Rightarrow> Inl (SchemaValidationError issues) | Inr r \<Rightarrow> Inr r)"

text \<open>
  What \<open>runInference\<close> does with the object the backend returned (lines 112 to 119):
  a response wrapped under the sentinel key is unwrapped and parsed with the original
  schema; every other response is returned as it is.
\<close>

definition handle_response :: "schema \<Rightarrow> json \<Rightarrow> error + json" where
  "handle_response S obj =
     (if has_sentinel obj
      then (case sentinel_payload obj of
              Some unwrapped \<Rightarrow> zod_parse S unwrapped
            | None \<Rightarrow> Inr obj)
      else Inr obj)"

text \<open>
  \<open>runInference\<close>: the request sent to the backend, the usage line logged when
  \<open>process.env.DEBUG\<close> is set, and the result. A backend failure rejects the call
  before anything is logged. The first component is what \<open>info\<close> printed.
\<close>

definition runInference ::
  "string \<Rightarrow> string \<Rightarrow> backend \<Rightarrow> (string \<rightharpoonup> string) \<Rightarrow> inference_config
     \<Rightarrow> string list \<times> (error + json)" where
  "runInference llmApiKey modelName generateObject penv cfg =
     (case generateObject
             \<lparr> api_key = llmApiKey, model_name = modelName, req_prompt = prompt cfg,
               req_temperature = temperature_or_zero (temperature cfg),
               req_system = system cfg, req_schema = json_schema (schema cfg) \<rparr> of
        Inl e \<Rightarrow> ([], Inl e)
      | Inr r \<Rightarrow>
          ((if truthy (penv ''DEBUG'') then [''usage: \<newline>'' @ usage r] else []),
           handle_response (schema cfg) (object r)))"

section \<open>JavaScript and Node library functions the command line uses\<close>

text \<open>
  A string is a list of 8-bit characters, read as the JavaScript string with those code
  units. The white space \<open>trim\<close> and \<open>parseInt\<close> skip is, in that range, the tab,
  line feed, vertical tab, form feed, carriage return, space and no-break space; the other
  white space of JavaScript lies beyond \<open>0xFF\<close> and does not occur in such a string.
\<close>

definition is_space :: "char \<Rightarrow> bool" where
  "is_space c = (c \<in> set [CHR 0x09, CHR 0x0A, CHR 0x0B, CHR 0x0C, CHR 0x0D, CHR 0x20, CHR 0xA0])"

definition js_trim :: "string \<Rightarrow> string" where
  "js_trim s = rev (dropWhile is_space (rev (dropWhile is_space s)))"

definition is_digit :: "char \<Rightarrow> bool" where
  "is_digit c = (48 \<le> (of_char c :: nat) \<and> (of_char c :: nat) \<le> 57)"

definition digit_char :: "nat \<Rightarrow> char" where
  "digit_char d = char_of (48 + d)"

definition digit_val :: "char \<Rightarrow> int" where
  "digit_val c = int (of_char c) - 48"

text \<open>
  \<open>String(n)\<close> for an integer \<open>n\<close> below \<open>2 ^ 53\<close> in absolute value (a
  safe integer): its decimal digits, with a minus sign below zero. Beyond that bound a
  JavaScript number rounds and \<open>String\<close> prints the shortest decimal that reads back
  as the same number, in exponent notation from \<open>10 ^ 21\<close> on; this function does
  neither, so what is stated about the text of a number is stated for safe integers.
\<close>

function nat_digits :: "nat \<Rightarrow> string" where
  "nat_digits n = (if n < 10 then [digit_char n] else nat_digits (n div 10) @ [digit_char (n mod 10)])"
  by pat_completeness auto
termination
  by (relation "measure id") auto

definition js_string_of_int :: "int \<Rightarrow> string" where
  "js_string_of_int n = (if n < 0 then CHR ''-'' # nat_digits (nat (- n)) else nat_digits (nat n))"

text \<open>
  JavaScript numbers as the command line meets them: the integers \<open>parseInt\<close> reads,
  and NaN. (Beyond \<open>2 ^ 53\<close> a JavaScript number rounds; the model keeps the integer.)
\<close>

datatype jsnum = NaN | Num int

definition truthy_num :: "jsnum option \<Rightarrow> bool" where
  "truthy_num v = (case v of Some (Num n) \<Rightarrow> n \<noteq> 0 | _ \<Rightarrow> False)"

text \<open>
  \<open>parseInt(s, 10)\<close>: leading white space is skipped, one sign is read, then the
  longest run of decimal digits; with no digit the result is NaN.
\<close>

definition js_parseInt :: "string \<Rightarrow> jsnum" where
  "js_parseInt s =
     (let s1 = dropWhile is_space s;
          neg = (s1 \<noteq> [] \<and> hd s1 = CHR ''-'');
          s2 = (if s1 \<noteq> [] \<and> (hd s1 = CHR ''-'' \<or> hd s1 = CHR ''+'') then tl s1 else s1);
          ds = takeWhile is_digit s2;
          v = foldl (\<lambda>a c. 10 * a + digit_val c) 0 ds
      in if ds = [] then NaN else Num (if neg then - v else v))"

text \<open>\<open>xs.slice(0, end)\<close>: a negative end counts from the end of the array, NaN is 0.\<close>

definition js_slice0 :: "'a list \<Rightarrow> jsnum \<Rightarrow> 'a list" where
  "js_slice0 xs e =
     (case e of
        NaN \<Rightarrow> []
      | Num n \<Rightarrow> (if n < 0 then take (nat (int (length xs) + n)) xs else take (nat n) xs))"

text \<open>\<open>s.split('/')\<close>: the pieces between the separators; the empty string has one piece.\<close>

fun split_on :: "char \<Rightarrow> string \<Rightarrow> string list" where
  "split_on c [] = [[]]"
| "split_on c (x # xs) =
     (if x = c then [] # split_on c xs
      else (case split_on c xs of [] \<Rightarrow> [[x]] | p # ps \<Rightarrow> (x # p) # ps))"

fun join_slash :: "string list \<Rightarrow> string" where
  "join_slash [] = []"
| "join_slash [p] = p"
| "join_slash (p # q # ps) = p @ CHR ''/'' # join_slash (q # ps)"

text \<open>
  Node's POSIX \<open>path\<close> module. \<open>normalizeString\<close> walks the path one segment at a
  time: an empty segment and \<open>.\<close> are dropped, \<open>..\<close> removes the segment before it
  (or is kept, on a relative path, when there is none to remove).
\<close>

fun norm_segs :: "bool \<Rightarrow> string list \<Rightarrow> string list \<Rightarrow> string list" where
  "norm_segs allowAboveRoot acc [] = acc"
| "norm_segs allowAboveRoot acc (seg # rest) =
     (if seg = [] \<or> seg = ''.'' then norm_segs allowAboveRoot acc rest
      else if seg = ''..'' then
        (if acc \<noteq> [] \<and> last acc \<noteq> ''..'' then norm_segs allowAboveRoot (butlast acc) rest
         else if allowAboveRoot then norm_segs allowAboveRoot (acc @ [''..'']) rest
         else norm_segs allowAboveRoot acc rest)
      else norm_segs allowAboveRoot (acc @ [seg]) rest)"

definition path_isAbsolute :: "string \<Rightarrow> bool" where
  "path_isAbsolute p = (p \<noteq> [] \<and> hd p = CHR ''/'')"

definition path_normalize :: "string \<Rightarrow> string" where
  "path_normalize p =
     (if p = [] then ''.''
      else
        (let isAbs = path_isAbsolute p;
             trailing = (last p = CHR ''/'');
             body = join_slash (norm_segs (\<not> isAbs) [] (split_on CHR ''/'' p))
         in if body = [] then (if isAbs then ''/'' else if trailing then ''./'' else ''.'')
            else (if isAbs then ''/'' else []) @ body @ (if trailing then ''/'' else [])))"

definition path_join :: "string list \<Rightarrow> string" where
  "path_join parts =
     (let joined = filter (\<lambda>p. p \<noteq> []) parts
      in if joined = [] then ''.'' else path_normalize (join_slash joined))"

definition path_dirname :: "string \<Rightarrow> string" where
  "path_dirname p =
     (case p of
        [] \<Rightarrow> ''.''
      | c # rest \<Rightarrow>
          (let r = dropWhile (\<lambda>x. x \<noteq> CHR ''/'') (dropWhile (\<lambda>x. x = CHR ''/'') (rev rest))
           in if r = [] then (if c = CHR ''/'' then ''/'' else ''.'')
              else if c = CHR ''/'' \<and> length r = 1 then ''//''
              else c # rev (tl r)))"

text \<open>\<open>path.resolve(p)\<close> in the working directory \<open>wd\<close>, as the list of its segments.\<close>

definition resolve_segs :: "string \<Rightarrow> string \<Rightarrow> string list" where
  "resolve_segs wd p =
     norm_segs False [] (split_on CHR ''/'' (if path_isAbsolute p then p else wd @ CHR ''/'' # p))"

fun common_prefix :: "string list \<Rightarrow> string list \<Rightarrow> nat" where
  "common_prefix (x # xs) (y # ys) = (if x = y then Suc (common_prefix xs ys) else 0)"
| "common_prefix _ _ = 0"

definition path_relative :: "string \<Rightarrow> string \<Rightarrow> string \<Rightarrow> string" where
  "path_relative wd from_path to_path =
     (let fs = resolve_segs wd from_path;
          ts = resolve_segs wd to_path;
          k = common_prefix fs ts
      in join_slash (replicate (length fs - k) ''..'' @ drop k ts))"

section \<open>The process and its surroundings\<close>

text \<open>
  What a write to \<open>process.stdout\<close> or \<open>process.stderr\<close> is given: a string, or
  another value together with the text \<open>String(value)\<close> makes of it (no text when
  that conversion throws).
\<close>

datatype stream = Stdout | Stderr

datatype write_arg = Text string | NonText "string option"

fun arg_text :: "write_arg \<Rightarrow> string option" where
  "arg_text (Text s) = Some s"
| "arg_text (NonText c) = c"

text \<open>
  The function installed as \<open>write\<close> of a stream: the stream's own, or the interceptor
  of \<open>reviewPR\<close>, which buffers the text and then calls the writer it replaced.
\<close>

datatype writer = Original | Intercepting

datatype fs_op = Mkdir string | WriteFile string string

text \<open>
  The state of the process: \<open>process.env\<close>, the two installed writers, the buffer
  \<open>chunks\<close> of the interceptors, what reached the original writers of the two
  streams, the calls of \<open>fs.mkdirSync\<close> and \<open>fs.writeFileSync\<close> that succeeded,
  and the number of times \<open>gh auth token\<close> was run.
\<close>

record proc =
  env :: "string \<rightharpoonup> string"
  stdout_writer :: writer
  stderr_writer :: writer
  chunks :: "string list"
  stdout_out :: "write_arg list"
  stderr_out :: "write_arg list"
  fs_log :: "fs_op list"
  gh_calls :: nat

text \<open>
  What \<open>dotenv.config\<close> makes of the \<open>.env\<close> file: it throws; it cannot read the
  file and returns the error without throwing (the library catches its own read errors);
  or it returns the variables it parsed.
\<close>

datatype dotenv_outcome = DotenvThrows string | DotenvFails string | DotenvParsed "string \<rightharpoonup> string"

datatype gh_outcome = GhFails | GhPrints string

record pull =
  number :: int
  title :: string
  user_login :: "string option"

record list_request =
  auth_token :: string
  base_url :: "string option"
  list_owner :: string
  list_repo :: "string option"
  list_state :: string
  per_page :: nat

text \<open>
  What the process finds around it: the working directory, the \<open>.env\<close> file there
  (if any) with what \<open>dotenv.config\<close> makes of it, the outcome of \<open>gh auth token\<close>
  and what the command writes to its standard error, the pages the platform returns for
  a listing, and the paths on which \<open>fs\<close> fails.
\<close>

record world =
  cwd :: string
  dotenv_file :: "dotenv_outcome option"
  gh_auth_token :: gh_outcome
  gh_stderr :: string
  pulls_list :: "list_request \<Rightarrow> error + pull list list"
  fs_denied :: "string \<Rightarrow> bool"

text \<open>
  The review collaborator \<open>handlePullRequest\<close> (with the import of its module): it
  reads \<open>process.env\<close>, writes to the two streams, and resolves or rejects.
\<close>

type_synonym collaborator = "(string \<rightharpoonup> string) \<Rightarrow> (stream \<times> write_arg) list \<times> (error + unit)"

text \<open>\<open>chunks.push(typeof str === 'string' ? str : String(str))\<close> inside \<open>try\<close>.\<close>

definition push_chunk :: "write_arg \<Rightarrow> proc \<Rightarrow> proc" where
  "push_chunk a s = (case arg_text a of None \<Rightarrow> s | Some t \<Rightarrow> s\<lparr>chunks := chunks s @ [t]\<rparr>)"

text \<open>A call of \<open>process.stdout.write\<close> or \<open>process.stderr.write\<close>.\<close>

fun stream_write :: "stream \<Rightarrow> write_arg \<Rightarrow> proc \<Rightarrow> proc" where
  "stream_write Stdout a s =
     (let s1 = (case stdout_writer s of Original \<Rightarrow> s | Intercepting \<Rightarrow> push_chunk a s)
      in s1\<lparr>stdout_out := stdout_out s1 @ [a]\<rparr>)"
| "stream_write Stderr a s =
     (let s1 = (case stderr_writer s of Original \<Rightarrow> s | Intercepting \<Rightarrow> push_chunk a s)
      in s1\<lparr>stderr_out := stderr_out s1 @ [a]\<rparr>)"

definition console_log :: "string \<Rightarrow> proc \<Rightarrow> proc" where
  "console_log line s = stream_write Stdout (Text (line @ ''\<newline>'')) s"

definition console_warn :: "string \<Rightarrow> proc \<Rightarrow> proc" where
  "console_warn line s = stream_write Stderr (Text (line @ ''\<newline>'')) s"

fun run_writes :: "(stream \<times> write_arg) list \<Rightarrow> proc \<Rightarrow> proc" where
  "run_writes [] s = s"
| "run_writes ((st, a) # ws) s = run_writes ws (stream_write st a s)"

section \<open>Credential resolution (cli.ts, resolveGitHubToken)\<close>

text \<open>
  \<open>dotenv.config\<close> sets the variables of the file that \<open>process.env\<close> does not
  define yet, and overrides none.
\<close>

definition loadDotEnvIfExists :: "world \<Rightarrow> proc \<Rightarrow> proc" where
  "loadDotEnvIfExists w s =
     (case dotenv_file w of
        None \<Rightarrow> s
      | Some (DotenvThrows e) \<Rightarrow> console_warn (''Failed to load .env file: '' @ e) s
      | Some (DotenvFails e) \<Rightarrow> s
      | Some (DotenvParsed vars) \<Rightarrow> s\<lparr>env := vars ++ env s\<rparr>)"

text \<open>
  \<open>execSync('gh auth token', { encoding: 'utf8' })\<close> up to its outcome: the command is
  run, and since no \<open>stdio\<close> option is given, what it wrote to its standard error is
  written to \<open>process.stderr\<close> when it is not empty, whether the command succeeded or not.
\<close>

definition execSync_gh :: "world \<Rightarrow> proc \<Rightarrow> proc" where
  "execSync_gh w s =
     (let s1 = s\<lparr>gh_calls := Suc (gh_calls s)\<rparr>
      in if gh_stderr w = [] then s1 else stream_write Stderr (Text (gh_stderr w)) s1)"

definition no_token_message :: string where
  "no_token_message = ''No GITHUB_TOKEN found; set env/.env or run `gh auth login`.''"

definition resolveGitHubToken :: "world \<Rightarrow> proc \<Rightarrow> (error + string) \<times> proc" where
  "resolveGitHubToken w s =
     (let s1 = (if truthy (env s ''GITHUB_ACTION'') then s
                else s\<lparr>env := (env s)(''GITHUB_ACTION'' \<mapsto> ''local'')\<rparr>)
      in case (if truthy (env s1 ''GITHUB_TOKEN'') then env s1 ''GITHUB_TOKEN'' else None) of
           Some t \<Rightarrow> (Inr t, s1)
         | None \<Rightarrow>
             (let s2 = loadDotEnvIfExists w s1
              in case (if truthy (env s2 ''GITHUB_TOKEN'') then env s2 ''GITHUB_TOKEN'' else None) of
                   Some t \<Rightarrow> (Inr t, s2)
                 | None \<Rightarrow>
                     (let s3 = execSync_gh w s2
                      in case gh_auth_token w of
                           GhFails \<Rightarrow> (Inl (NoCredentialError no_token_message), s3)
                         | GhPrints printed \<Rightarrow>
                             (let token = js_trim printed
                              in if token \<noteq> []
                                 then (Inr token, s3\<lparr>env := (env s3)(''GITHUB_TOKEN'' \<mapsto> token)\<rparr>)
                                 else (Inl (NoCredentialError no_token_message), s3)))))"

section \<open>The listing flow (cli.ts, listPRs)\<close>

definition pr_line :: "pull \<Rightarrow> string" where
  "pr_line p =
     ''#'' @ js_string_of_int (number p) @ '' '' @ title p @ '' by @''
       @ (case user_login p of None \<Rightarrow> ''undefined'' | Some l \<Rightarrow> l)"

fun print_pulls :: "pull list \<Rightarrow> proc \<Rightarrow> proc" where
  "print_pulls [] s = s"
| "print_pulls (p # ps) s = print_pulls ps (console_log (pr_line p) s)"

text \<open>
  The listing sent to the platform: \<open>initOctokit(token, process.env.GITHUB_API_URL || undefined)\<close>
  and the arguments of \<open>octokit.paginate\<close>.
\<close>

definition pulls_request :: "string \<Rightarrow> proc \<Rightarrow> string \<Rightarrow> string option \<Rightarrow> string \<Rightarrow> list_request" where
  "pulls_request token s ownr rep st =
     \<lparr> auth_token = token,
       base_url = (if truthy (env s ''GITHUB_API_URL'') then env s ''GITHUB_API_URL'' else None),
       list_owner = ownr, list_repo = rep, list_state = st, per_page = 100 \<rparr>"

text \<open>
  \<open>listPRs\<close>: \<open>paginate\<close> returns the items of all pages in order, the first
  \<open>limit\<close> of them are printed.
\<close>

definition listPRs ::
  "world \<Rightarrow> string \<Rightarrow> string option \<Rightarrow> string \<Rightarrow> jsnum \<Rightarrow> proc \<Rightarrow> (error + unit) \<times> proc" where
  "listPRs w ownr rep st cap s =
     (case resolveGitHubToken w s of
        (Inl e, s1) \<Rightarrow> (Inl e, s1)
      | (Inr token, s1) \<Rightarrow>
          (case pulls_list w (pulls_request token s1 ownr rep st) of
             Inl e \<Rightarrow> (Inl e, s1)
           | Inr pages \<Rightarrow> (Inr (), print_pulls (js_slice0 (concat pages) cap) s1)))"

section \<open>The review flow (cli.ts, reviewPR)\<close>

text \<open>The parameter \<open>out?: string | boolean\<close>.\<close>

datatype out_arg = OutPath string | OutBool bool

definition out_truthy :: "out_arg option \<Rightarrow> bool" where
  "out_truthy v = (case v of None \<Rightarrow> False | Some (OutBool b) \<Rightarrow> b | Some (OutPath p) \<Rightarrow> p \<noteq> [])"

text \<open>\<open>String(prNumber).replace(/[^0-9]/g, '')\<close>.\<close>

definition sanitizedPrNum :: "int \<Rightarrow> string" where
  "sanitizedPrNum prNumber = filter is_digit (js_string_of_int prNumber)"

definition default_out_path :: "world \<Rightarrow> int \<Rightarrow> string" where
  "default_out_path w prNumber = path_join [cwd w, ''dry'', ''pr-'' @ sanitizedPrNum prNumber @ ''.txt'']"

definition transcript_path :: "world \<Rightarrow> int \<Rightarrow> out_arg option \<Rightarrow> string" where
  "transcript_path w prNumber v =
     (case v of
        Some (OutPath p) \<Rightarrow>
          (if js_trim p \<noteq> []
           then (if path_isAbsolute p then p else path_join [cwd w, p])
           else default_out_path w prNumber)
      | _ \<Rightarrow> default_out_path w prNumber)"

text \<open>Lines 74 to 82: the environment the review collaborator reads.\<close>

definition set_review_env :: "int \<Rightarrow> bool \<Rightarrow> string \<Rightarrow> string option \<Rightarrow> proc \<Rightarrow> proc" where
  "set_review_env prNumber isDry ownr rep s =
     (let e1 = (env s)(''DEBUG'' \<mapsto> ''1'');
          e2 = e1(''GITHUB_REPOSITORY'' \<mapsto>
                    ownr @ ''/'' @ (case rep of None \<Rightarrow> ''undefined'' | Some r \<Rightarrow> r));
          e3 = e2(''GITHUB_PULL_REQUEST'' \<mapsto> js_string_of_int prNumber);
          e4 = e3(''GITHUB_EVENT_NAME'' \<mapsto> ''pull_request'');
          e5 = e4(''GITHUB_EVENT_ACTION'' \<mapsto> ''synchronize'');
          e6 = (if isDry then e5(''DRY_RUN'' \<mapsto> ''1'') else e5)
      in s\<lparr>env := e6\<rparr>)"

text \<open>Lines 94 to 114: the two interceptors are installed over an empty buffer.\<close>

definition begin_capture :: "proc \<Rightarrow> proc" where
  "begin_capture s = s\<lparr>stdout_writer := Intercepting, stderr_writer := Intercepting, chunks := []\<rparr>"

text \<open>
  The closure \<open>restore\<close> (lines 116 to 122), with the writers \<open>o1\<close> and \<open>o2\<close> it
  saved. A failure of \<open>fs\<close> leaves it at that call, after the writers are back.
\<close>

definition restore :: "world \<Rightarrow> writer \<Rightarrow> writer \<Rightarrow> string \<Rightarrow> proc \<Rightarrow> (error + unit) \<times> proc" where
  "restore w o1 o2 outPath s =
     (let s1 = s\<lparr>stdout_writer := o1, stderr_writer := o2\<rparr>;
          dir = path_dirname outPath
      in if fs_denied w dir then (Inl (FileIOError dir), s1)
         else
           (let s2 = s1\<lparr>fs_log := fs_log s1 @ [Mkdir dir]\<rparr>
            in if fs_denied w outPath then (Inl (FileIOError outPath), s2)
               else
                 (let s3 = s2\<lparr>fs_log := fs_log s2 @ [WriteFile outPath (concat (chunks s2))]\<rparr>
                  in (Inr (),
                      console_log (''\<newline>[dry-run] Saved output to ''
                                     @ path_relative (cwd w) (cwd w) outPath) s3))))"

text \<open>
  \<open>reviewPR\<close>. The collaborator runs inside \<open>try\<close>; \<open>finally\<close> calls
  \<open>restore\<close> when a capture was set up, and an error thrown there replaces the
  outcome of the collaborator.
\<close>

definition reviewPR ::
  "world \<Rightarrow> collaborator \<Rightarrow> int \<Rightarrow> bool \<Rightarrow> string \<Rightarrow> string option \<Rightarrow> out_arg option
     \<Rightarrow> proc \<Rightarrow> (error + unit) \<times> proc" where
  "reviewPR w handlePullRequest prNumber isDry ownr rep outArg s =
     (case resolveGitHubToken w s of
        (Inl e, s1) \<Rightarrow> (Inl e, s1)
      | (Inr token, s1) \<Rightarrow>
          (let s2 = set_review_env prNumber isDry ownr rep s1
           in if out_truthy outArg
              then
                (let outPath = transcript_path w prNumber outArg;
                     o1 = stdout_writer s2;
                     o2 = stderr_writer s2;
                     s3 = begin_capture s2;
                     run = handlePullRequest (env s3);
                     s4 = run_writes (fst run) s3
                 in case restore w o1 o2 outPath s4 of
                      (Inl e, s5) \<Rightarrow> (Inl e, s5)
                    | (Inr u, s5) \<Rightarrow> (snd run, s5))
              else
                (let run = handlePullRequest (env s2)
                 in (snd run, run_writes (fst run) s2))))"

section \<open>The command line (cli.ts, parseArgs and main)\<close>

text \<open>
  The record \<open>args\<close>. A key that was never set is undefined: \<open>None\<close>, and
  \<open>False\<close> for the two flags that are only ever set to true. \<open>arg_positional\<close>
  is the key \<open>_\<close>.
\<close>

record cli_args =
  arg_dryRun :: bool
  arg_listPrs :: bool
  arg_state :: "string option"
  arg_limit :: "jsnum option"
  arg_pr :: "jsnum option"
  arg_owner :: "string option"
  arg_repo :: "string option"
  arg_out :: "out_arg option"
  arg_positional :: "string list"

text \<open>\<open>argv[++i]\<close> and \<open>argv[i + 1]\<close>: undefined past the end.\<close>

definition next_token :: "string list \<Rightarrow> string option" where
  "next_token rest = (case rest of [] \<Rightarrow> None | v # _ \<Rightarrow> Some v)"

text \<open>\<open>v || d\<close> for a string \<open>v\<close> that may be undefined.\<close>

definition or_default :: "string option \<Rightarrow> string \<Rightarrow> string" where
  "or_default v d = (case v of None \<Rightarrow> d | Some s \<Rightarrow> if s = [] then d else s)"

definition starts_with_dash :: "string \<Rightarrow> bool" where
  "starts_with_dash s = (s \<noteq> [] \<and> hd s = CHR ''-'')"

text \<open>The loop of \<open>parseArgs\<close> at index \<open>i\<close>: the tokens from \<open>i\<close> on.\<close>

fun parse_loop :: "cli_args \<Rightarrow> string list \<Rightarrow> cli_args" where
  "parse_loop args [] = args"
| "parse_loop args (a # rest) =
     (if a = ''--dry-run'' then parse_loop (args\<lparr>arg_dryRun := True\<rparr>) rest
      else if a = ''--list-prs'' then parse_loop (args\<lparr>arg_listPrs := True\<rparr>) rest
      else if a = ''--state'' then parse_loop (args\<lparr>arg_state := next_token rest\<rparr>) (drop 1 rest)
      else if a = ''--limit'' then
        parse_loop (args\<lparr>arg_limit := Some (js_parseInt (or_default (next_token rest) ''10''))\<rparr>) (drop 1 rest)
      else if a = ''--pr'' then
        parse_loop (args\<lparr>arg_pr := Some (js_parseInt (or_default (next_token rest) ''0''))\<rparr>) (drop 1 rest)
      else if a = ''--owner'' then parse_loop (args\<lparr>arg_owner := next_token rest\<rparr>) (drop 1 rest)
      else if a = ''--repo'' then parse_loop (args\<lparr>arg_repo := next_token rest\<rparr>) (drop 1 rest)
      else if a = ''--out'' \<or> a = ''-out'' then
        (case next_token rest of
           Some nxt \<Rightarrow>
             (if nxt \<noteq> [] \<and> \<not> starts_with_dash nxt
              then parse_loop (args\<lparr>arg_out := Some (OutPath nxt)\<rparr>) (drop 1 rest)
              else parse_loop (args\<lparr>arg_out := Some (OutBool True)\<rparr>) rest)
         | None \<Rightarrow> parse_loop (args\<lparr>arg_out := Some (OutBool True)\<rparr>) rest)
      else parse_loop (args\<lparr>arg_positional := arg_positional args @ [a]\<rparr>) rest)"

definition no_args :: cli_args where
  "no_args =
     \<lparr> arg_dryRun = False, arg_listPrs = False, arg_state = None, arg_limit = None, arg_pr = None,
       arg_owner = None, arg_repo = None, arg_out = None, arg_positional = [] \<rparr>"

definition parseArgs :: "string list \<Rightarrow> cli_args" where
  "parseArgs argv = parse_loop no_args argv"

definition usage_text :: string where
  "usage_text =
     ''Usage:\<newline>''
     @ ''  review --list-prs [--owner <owner>] [--repo <repo>] [--state open|closed|all] [--limit N]\<newline>''
     @ ''  review --pr <number> [--owner <owner>] [--repo <repo>] [--dry-run] [--out [path] | -out [path]]\<newline>''
     @ ''\<newline>Examples:\<newline>''
     @ ''  review --list-prs --owner shawnd --repo pr-reviewer\<newline>''
     @ ''  review --pr 123 --dry-run\<newline>''
     @ ''  review --pr 123 --dry-run --out review-output.txt\<newline>''
     @ ''  review --pr 123 --owner myorg --repo myrepo\<newline>''
     @ ''\<newline>Environment:\<newline>''
     @ ''  Set GITHUB_REPOSITORY=owner/repo to avoid specifying --owner and --repo each time\<newline>''
     @ ''  Set GITHUB_TOKEN or authenticate with 'gh auth login'\<newline>''"

text \<open>\<open>args.limit || 10\<close>: NaN and 0 are falsy.\<close>

definition limit_or_default :: "jsnum option \<Rightarrow> jsnum" where
  "limit_or_default v = (case v of Some (Num n) \<Rightarrow> if n = 0 then Num 10 else Num n | _ \<Rightarrow> Num 10)"

text \<open>
  Lines 173 to 177: owner and repository come from the arguments, else from the two
  first pieces of \<open>GITHUB_REPOSITORY\<close> (or of the built-in default); a value
  without a slash has no second piece.
\<close>

definition default_repo_parts :: "proc \<Rightarrow> string list" where
  "default_repo_parts s = split_on CHR ''/'' (or_default (env s ''GITHUB_REPOSITORY'') ''shawnd/pr-reviewer'')"

definition target_owner :: "cli_args \<Rightarrow> proc \<Rightarrow> string" where
  "target_owner args s =
     or_default (arg_owner args) (case default_repo_parts s of [] \<Rightarrow> [] | p # ps \<Rightarrow> p)"

definition target_repo :: "cli_args \<Rightarrow> proc \<Rightarrow> string option" where
  "target_repo args s =
     (if truthy (arg_repo args) then arg_repo args
      else (case default_repo_parts s of p # r # ps \<Rightarrow> Some r | _ \<Rightarrow> None))"

definition main :: "world \<Rightarrow> collaborator \<Rightarrow> string list \<Rightarrow> proc \<Rightarrow> (error + unit) \<times> proc" where
  "main w handlePullRequest argv s =
     (let args = parseArgs argv;
          ownr = target_owner args s;
          rep = target_repo args s
      in if arg_listPrs args
         then listPRs w ownr rep (or_default (arg_state args) ''open'') (limit_or_default (arg_limit args)) s
         else
           (case arg_pr args of
              Some (Num n) \<Rightarrow>
                (if n \<noteq> 0 then reviewPR w handlePullRequest n (arg_dryRun args) ownr rep (arg_out args) s
                 else (Inr (), console_log usage_text s))
            | _ \<Rightarrow> (Inr (), console_log usage_text s)))"

section \<open>Inputs the theorems are run on\<close>

text \<open>
  The schema \<open>z.object({ summary: z.string() })\<close>: it accepts an object whose
  property \<open>summary\<close> is a string and returns the object with that property alone
  (unknown keys are stripped); it rejects everything else.
\<close>

definition summary_schema :: schema where
  "summary_schema =
     \<lparr> parse = (\<lambda>v. case v of
                        JObj props \<Rightarrow>
                          (case map_of props ''summary'' of
                             Some (JStr s) \<Rightarrow> Inr (JObj [(''summary'', JStr s)])
                           | _ \<Rightarrow> Inl [''Expected an object with the string summary''])
                      | _ \<Rightarrow> Inl [''Expected an object with the string summary'']),
       json_schema = JObj [(''type'', JStr ''object'')] \<rparr>"

text \<open>A backend that answers every request with the same object.\<close>

definition fixed_backend :: "json \<Rightarrow> backend" where
  "fixed_backend obj = (\<lambda>req. Inr \<lparr> object = obj, usage = ''{}'' \<rparr>)"

definition summary_request :: inference_config where
  "summary_request = \<lparr> prompt = ''Summarise'', temperature = None, system = None, schema = summary_schema \<rparr>"

text \<open>
  A process as it starts: empty environment unless given one, the streams' own writers,
  nothing written yet.
\<close>

definition start_proc :: "(string \<rightharpoonup> string) \<Rightarrow> proc" where
  "start_proc e =
     \<lparr> env = e, stdout_writer = Original, stderr_writer = Original, chunks = [],
       stdout_out = [], stderr_out = [], fs_log = [], gh_calls = 0 \<rparr>"

definition five_pulls :: "pull list" where
  "five_pulls =
     [\<lparr> number = 11, title = ''Add parser'', user_login = Some ''ann'' \<rparr>,
      \<lparr> number = 12, title = ''Fix typo'', user_login = Some ''bob'' \<rparr>,
      \<lparr> number = 15, title = ''Bump deps'', user_login = None \<rparr>,
      \<lparr> number = 17, title = ''Refactor'', user_login = Some ''cy'' \<rparr>,
      \<lparr> number = 20, title = ''Docs'', user_login = Some ''dee'' \<rparr>]"

text \<open>
  A working directory with no \<open>.env\<close> file, where \<open>gh auth token\<close> gives the
  outcome \<open>g\<close> and writes nothing to its standard error, the platform answers
  every listing with five pull requests on two pages, and \<open>fs\<close> never fails.
\<close>

definition plain_world :: "gh_outcome \<Rightarrow> world" where
  "plain_world g =
     \<lparr> cwd = ''/home/u/repo'', dotenv_file = None, gh_auth_token = g, gh_stderr = [],
       pulls_list = (\<lambda>req. Inr [take 3 five_pulls, drop 3 five_pulls]),
       fs_denied = (\<lambda>p. False) \<rparr>"


text \<open>
  A review collaborator that writes to both streams and resolves, and one that writes to
  both streams and rejects.
\<close>

definition quiet_review :: collaborator where
  "quiet_review = (\<lambda>e. ([(Stdout, Text ''Reviewing\<newline>''), (Stderr, Text ''1 warning\<newline>'')], Inr ()))"


text \<open>
  A review collaborator that reports the \<open>DEBUG\<close> variable it is run with on the error
  stream, and rejects unless the variable is set.
\<close>

definition debug_probe :: collaborator where
  "debug_probe =
     (\<lambda>e. case e ''DEBUG'' of
             None \<Rightarrow> ([(Stderr, Text ''DEBUG unset'')], Inl (ReviewError ''no debug''))
           | Some v \<Rightarrow> ([(Stderr, Text (''DEBUG='' @ v))], Inr ()))"

section \<open>The credential sources, as the theorems name them\<close>

text \<open>
  What each of the three sources holds, taken by itself: the variable \<open>GITHUB_TOKEN\<close>
  of the process when it is not empty; the \<open>GITHUB_TOKEN\<close> that \<open>dotenv\<close> parsed
  from the \<open>.env\<close> file, when it is not empty; and the trimmed output of
  \<open>gh auth token\<close>, when it is not empty.
\<close>

definition explicit_token :: "proc \<Rightarrow> string option" where
  "explicit_token s = (if truthy (env s ''GITHUB_TOKEN'') then env s ''GITHUB_TOKEN'' else None)"

definition dotenv_file_token :: "world \<Rightarrow> string option" where
  "dotenv_file_token w =
     (case dotenv_file w of
        Some (DotenvParsed vars) \<Rightarrow> (if truthy (vars ''GITHUB_TOKEN'') then vars ''GITHUB_TOKEN'' else None)
      | _ \<Rightarrow> None)"

definition gh_token :: "world \<Rightarrow> string option" where
  "gh_token w =
     (case gh_auth_token w of
        GhFails \<Rightarrow> None
      | GhPrints printed \<Rightarrow> (if js_trim printed = [] then None else Some (js_trim printed)))"



text \<open>The state after the first statement of \<open>resolveGitHubToken\<close> (line 21).\<close>

definition mark_local :: "proc \<Rightarrow> proc" where
  "mark_local s = (if truthy (env s ''GITHUB_ACTION'') then s
                else s\<lparr>env := (env s)(''GITHUB_ACTION'' \<mapsto> ''local'')\<rparr>)"

section \<open>The review flow, as the theorems name it\<close>

text \<open>The text a sequence of writes leaves in the buffer, and what reaches one stream.\<close>

definition transcript_of :: "(stream \<times> write_arg) list \<Rightarrow> string" where
  "transcript_of ws = concat (List.map_filter arg_text (map snd ws))"

definition writes_to :: "stream \<Rightarrow> (stream \<times> write_arg) list \<Rightarrow> write_arg list" where
  "writes_to st ws = map snd (filter (\<lambda>x. fst x = st) ws)"

definition saved_line :: "world \<Rightarrow> string \<Rightarrow> write_arg" where
  "saved_line w outPath =
     Text (''\<newline>[dry-run] Saved output to '' @ path_relative (cwd w) (cwd w) outPath @ ''\<newline>'')"

text \<open>
  A working directory as \<open>process.cwd()\<close> reports it: absolute, normalized, and
  without a slash at its end unless it is the root.
\<close>

definition is_cwd :: "string \<Rightarrow> bool" where
  "is_cwd p = (path_isAbsolute p \<and> path_normalize p = p \<and> (p = ''/'' \<or> last p \<noteq> CHR ''/''))"

text \<open>The relative path \<open>rel\<close> under the working directory.\<close>

definition under_cwd :: "world \<Rightarrow> string \<Rightarrow> string" where
  "under_cwd w rel = (if cwd w = ''/'' then ''/'' @ rel else cwd w @ ''/'' @ rel)"

text \<open>A file name: not empty, no slash in it, and neither \<open>.\<close> nor \<open>..\<close>.\<close>

definition plain_name :: "string \<Rightarrow> bool" where
  "plain_name f = (f \<noteq> [] \<and> f \<noteq> ''.'' \<and> f \<noteq> ''..'' \<and> CHR ''/'' \<notin> set f)"

text \<open>What \<open>normalizeString\<close> does with one segment.\<close>

definition norm_step :: "bool \<Rightarrow> string list \<Rightarrow> string \<Rightarrow> string list" where
  "norm_step allowAboveRoot acc seg =
     (if seg = [] \<or> seg = ''.'' then acc
      else if seg = ''..'' then
        (if acc \<noteq> [] \<and> last acc \<noteq> ''..'' then butlast acc
         else if allowAboveRoot then acc @ [''..'']
         else acc)
      else acc @ [seg])"

text \<open>The segments of a resolved absolute path.\<close>

definition abs_segs :: "string \<Rightarrow> string list" where
  "abs_segs p = norm_segs False [] (split_on CHR ''/'' p)"

section \<open>Frame lemmas for the process state\<close>

lemma truthy_Some: "truthy v \<Longrightarrow> \<exists>t. v = Some t \<and> t \<noteq> []"
  by (cases v) (auto simp: truthy_def)

lemma push_chunk_frame [simp]:
  "env (push_chunk a s) = env s"
  "stdout_writer (push_chunk a s) = stdout_writer s"
  "stderr_writer (push_chunk a s) = stderr_writer s"
  "stdout_out (push_chunk a s) = stdout_out s"
  "stderr_out (push_chunk a s) = stderr_out s"
  "fs_log (push_chunk a s) = fs_log s"
  "gh_calls (push_chunk a s) = gh_calls s"
  by (simp_all add: push_chunk_def split: option.splits)

lemma stream_write_frame [simp]:
  "env (stream_write st a s) = env s"
  "stdout_writer (stream_write st a s) = stdout_writer s"
  "stderr_writer (stream_write st a s) = stderr_writer s"
  "fs_log (stream_write st a s) = fs_log s"
  "gh_calls (stream_write st a s) = gh_calls s"
  by (cases st; simp add: Let_def split: writer.splits)+

lemma stream_write_out:
  "stdout_out (stream_write st a s) = (if st = Stdout then stdout_out s @ [a] else stdout_out s)"
  "stderr_out (stream_write st a s) = (if st = Stderr then stderr_out s @ [a] else stderr_out s)"
  by (cases st; simp add: Let_def split: writer.splits)+

lemma stream_write_chunks:
  "chunks (stream_write st a s) =
     (if (case st of Stdout \<Rightarrow> stdout_writer s | Stderr \<Rightarrow> stderr_writer s) = Intercepting
      then chunks s @ (case arg_text a of None \<Rightarrow> [] | Some t \<Rightarrow> [t]) else chunks s)"
  by (cases st; simp add: Let_def push_chunk_def split: writer.splits option.splits)

declare stream_write.simps [simp del]

lemma console_frame [simp]:
  "env (console_log l s) = env s"
  "env (console_warn l s) = env s"
  "gh_calls (console_log l s) = gh_calls s"
  "gh_calls (console_warn l s) = gh_calls s"
  "fs_log (console_log l s) = fs_log s"
  "fs_log (console_warn l s) = fs_log s"
  "stdout_writer (console_log l s) = stdout_writer s"
  "stderr_writer (console_log l s) = stderr_writer s"
  "stdout_writer (console_warn l s) = stdout_writer s"
  "stderr_writer (console_warn l s) = stderr_writer s"
  by (simp_all add: console_log_def console_warn_def)

lemma console_warn_stderr [simp]:
  "stderr_out (console_warn l s) = stderr_out s @ [Text (l @ ''\<newline>'')]"
  "stdout_out (console_warn l s) = stdout_out s"
  by (simp_all add: console_warn_def stream_write_out)

lemma loadDotEnv_token:
  "env (loadDotEnvIfExists w s) ''GITHUB_TOKEN'' =
     (case env s ''GITHUB_TOKEN'' of
        Some t \<Rightarrow> Some t
      | None \<Rightarrow> (case dotenv_file w of Some (DotenvParsed vars) \<Rightarrow> vars ''GITHUB_TOKEN'' | _ \<Rightarrow> None))"
  by (simp add: loadDotEnvIfExists_def map_add_def split: option.splits dotenv_outcome.splits)

lemma loadDotEnv_gh_calls [simp]: "gh_calls (loadDotEnvIfExists w s) = gh_calls s"
  by (simp add: loadDotEnvIfExists_def split: option.splits dotenv_outcome.splits)

lemma loadDotEnv_keeps: "env s k = Some v \<Longrightarrow> env (loadDotEnvIfExists w s) k = Some v"
  by (simp add: loadDotEnvIfExists_def map_add_def split: option.splits dotenv_outcome.splits)


lemma loadDotEnv_stdout [simp]: "stdout_out (loadDotEnvIfExists w s) = stdout_out s"
  by (simp add: loadDotEnvIfExists_def split: option.splits dotenv_outcome.splits)


lemma mark_local_token [simp]: "env (mark_local s) ''GITHUB_TOKEN'' = env s ''GITHUB_TOKEN''"
  by (simp add: mark_local_def)

lemma execSync_gh_frame [simp]:
  "env (execSync_gh w s) = env s"
  "stdout_writer (execSync_gh w s) = stdout_writer s"
  "stderr_writer (execSync_gh w s) = stderr_writer s"
  "fs_log (execSync_gh w s) = fs_log s"
  "gh_calls (execSync_gh w s) = Suc (gh_calls s)"
  "stdout_out (execSync_gh w s) = stdout_out s"
  by (simp_all add: execSync_gh_def Let_def stream_write_out)


lemma loadDotEnv_truthy_token:
  "(if truthy (env (loadDotEnvIfExists w s) ''GITHUB_TOKEN'')
    then env (loadDotEnvIfExists w s) ''GITHUB_TOKEN'' else None) =
   (case env s ''GITHUB_TOKEN'' of
      Some t \<Rightarrow> (if t = [] then None else Some t)
    | None \<Rightarrow> dotenv_file_token w)"
  by (simp add: loadDotEnv_token dotenv_file_token_def truthy_def
      split: option.splits dotenv_outcome.splits)

lemma resolve_unfold:
  "resolveGitHubToken w s =
     (case explicit_token s of
        Some t \<Rightarrow> (Inr t, mark_local s)
      | None \<Rightarrow>
          (case (if env s ''GITHUB_TOKEN'' = None then dotenv_file_token w else None) of
             Some t \<Rightarrow> (Inr t, loadDotEnvIfExists w (mark_local s))
           | None \<Rightarrow>
               (case gh_token w of
                  Some t \<Rightarrow> (Inr t, (execSync_gh w (loadDotEnvIfExists w (mark_local s)))
                                       \<lparr>env := (env (loadDotEnvIfExists w (mark_local s)))(''GITHUB_TOKEN'' \<mapsto> t)\<rparr>)
                | None \<Rightarrow> (Inl (NoCredentialError no_token_message),
                            execSync_gh w (loadDotEnvIfExists w (mark_local s))))))"
proof -
  have first: "(if truthy (env (mark_local s) ''GITHUB_TOKEN'') then env (mark_local s) ''GITHUB_TOKEN'' else None)
                 = explicit_token s"
    by (simp add: explicit_token_def)
  have second: "explicit_token s = None \<Longrightarrow>
       (if truthy (env (loadDotEnvIfExists w (mark_local s)) ''GITHUB_TOKEN'')
        then env (loadDotEnvIfExists w (mark_local s)) ''GITHUB_TOKEN'' else None)
       = (if env s ''GITHUB_TOKEN'' = None then dotenv_file_token w else None)"
    unfolding loadDotEnv_truthy_token mark_local_token
    by (auto simp: explicit_token_def truthy_def split: option.splits if_splits)
  show ?thesis
  proof (cases "explicit_token s")
    case (Some t)
    then show ?thesis
      unfolding resolveGitHubToken_def mark_local_def[symmetric] Let_def first by simp
  next
    case None
    show ?thesis
      unfolding resolveGitHubToken_def mark_local_def[symmetric] Let_def first second [OF None]
      by (simp add: None gh_token_def split: option.splits gh_outcome.splits)
  qed
qed

lemma mark_local_action:
  "env (mark_local s) ''GITHUB_ACTION'' =
     (if truthy (env s ''GITHUB_ACTION'') then env s ''GITHUB_ACTION'' else Some ''local'')"
  by (simp add: mark_local_def)

lemma mark_local_frame [simp]:
  "gh_calls (mark_local s) = gh_calls s"
  "stderr_out (mark_local s) = stderr_out s"
  "stdout_out (mark_local s) = stdout_out s"
  by (simp_all add: mark_local_def)

lemma mark_local_action_Some: "\<exists>v. env (mark_local s) ''GITHUB_ACTION'' = Some v \<and> v \<noteq> []"
  by (auto simp: mark_local_action dest: truthy_Some)

lemma mark_local_idem: "truthy (env s ''GITHUB_ACTION'') \<Longrightarrow> mark_local s = s"
  by (simp add: mark_local_def)

lemma resolve_action:
  "env (snd (resolveGitHubToken w s)) ''GITHUB_ACTION'' = env (mark_local s) ''GITHUB_ACTION''"
proof -
  obtain v where v: "env (mark_local s) ''GITHUB_ACTION'' = Some v"
    using mark_local_action_Some by blast
  then have "env (loadDotEnvIfExists w (mark_local s)) ''GITHUB_ACTION'' = Some v"
    by (rule loadDotEnv_keeps)
  with v show ?thesis
    by (simp add: resolve_unfold split: option.splits)
qed

lemma resolve_cached:
  assumes "resolveGitHubToken w s = (Inr t, s1)"
  shows "env s1 ''GITHUB_TOKEN'' = Some t" and "t \<noteq> []" and "truthy (env s1 ''GITHUB_ACTION'')"
proof -
  show "env s1 ''GITHUB_TOKEN'' = Some t"
    using assms
    by (auto simp: resolve_unfold explicit_token_def dotenv_file_token_def loadDotEnv_token
        split: option.splits if_splits dotenv_outcome.splits)
  show "t \<noteq> []"
    using assms
    by (auto simp: resolve_unfold explicit_token_def dotenv_file_token_def gh_token_def truthy_def
        split: option.splits if_splits dotenv_outcome.splits gh_outcome.splits)
  have "env s1 ''GITHUB_ACTION'' = env (mark_local s) ''GITHUB_ACTION''"
    using resolve_action [of w s] assms by simp
  then show "truthy (env s1 ''GITHUB_ACTION'')"
    using mark_local_action_Some [of s] by (auto simp: truthy_def)
qed

lemma resolve_explicit:
  "env s ''GITHUB_TOKEN'' = Some t \<Longrightarrow> t \<noteq> [] \<Longrightarrow> resolveGitHubToken w s = (Inr t, mark_local s)"
  by (simp add: resolve_unfold explicit_token_def truthy_def)

lemma trim_token: "js_trim ''gho_2\<newline>'' = ''gho_2''"
  by (simp add: js_trim_def is_space_def)

section \<open>One step of the argument loop\<close>

lemma parse_loop_out_step:
  assumes "a = ''--out'' \<or> a = ''-out''"
  shows "parse_loop args (a # rest) =
           (case next_token rest of
              Some nxt \<Rightarrow>
                (if nxt \<noteq> [] \<and> \<not> starts_with_dash nxt
                 then parse_loop (args\<lparr>arg_out := Some (OutPath nxt)\<rparr>) (drop 1 rest)
                 else parse_loop (args\<lparr>arg_out := Some (OutBool True)\<rparr>) rest)
            | None \<Rightarrow> parse_loop (args\<lparr>arg_out := Some (OutBool True)\<rparr>) rest)"
  using assms by (elim disjE) simp_all

declare parse_loop.simps [simp del]

section \<open>Decimal digits, printed lines and the parsed listing arguments\<close>

declare nat_digits.simps [simp del]

lemma digit_char_simps:
  "digit_char 0 = CHR ''0''" "digit_char 1 = CHR ''1''" "digit_char 2 = CHR ''2''"
  "digit_char 3 = CHR ''3''" "digit_char 4 = CHR ''4''" "digit_char 5 = CHR ''5''"
  "digit_char 6 = CHR ''6''" "digit_char 7 = CHR ''7''" "digit_char 8 = CHR ''8''"
  "digit_char 9 = CHR ''9''" "digit_char (Suc 0) = CHR ''1''"
  by code_simp+

lemma nat_digits_small: "n < 10 \<Longrightarrow> nat_digits n = [digit_char n]"
  by (simp add: nat_digits.simps)

lemma nat_digits_step: "10 \<le> n \<Longrightarrow> nat_digits n = nat_digits (n div 10) @ [digit_char (n mod 10)]"
  by (subst nat_digits.simps) simp

lemma pr_lines_five:
  "map pr_line five_pulls =
     [''#11 Add parser by @ann'', ''#12 Fix typo by @bob'', ''#15 Bump deps by @undefined'',
      ''#17 Refactor by @cy'', ''#20 Docs by @dee'']"
  by (simp add: five_pulls_def pr_line_def js_string_of_int_def nat_digits_step nat_digits_small digit_char_simps)

lemma print_pulls_stdout:
  "stdout_out (print_pulls ps s) = stdout_out s @ map (\<lambda>p. Text (pr_line p @ ''\<newline>'')) ps"
  by (induction ps arbitrary: s) (simp_all add: console_log_def stream_write_out)

lemma resolve_stdout: "stdout_out (snd (resolveGitHubToken w s)) = stdout_out s"
  by (simp add: resolve_unfold split: option.splits)

lemma limit_or_default_cases:
  "limit_or_default None = Num 10"
  "limit_or_default (Some NaN) = Num 10"
  "limit_or_default (Some (Num 0)) = Num 10"
  "n \<noteq> 0 \<Longrightarrow> limit_or_default (Some (Num n)) = Num n"
  by (simp_all add: limit_or_default_def)

lemma main_listing:
  "arg_listPrs (parseArgs argv) \<Longrightarrow>
   main w h argv s =
     listPRs w (target_owner (parseArgs argv) s) (target_repo (parseArgs argv) s)
       (or_default (arg_state (parseArgs argv)) ''open'') (limit_or_default (arg_limit (parseArgs argv))) s"
  by (simp add: main_def Let_def)

lemma parse_list_state_limit:
  "parseArgs [''--list-prs'', ''--state'', ''open'', ''--limit'', v]
     = no_args\<lparr>arg_listPrs := True, arg_state := Some ''open'',
               arg_limit := Some (js_parseInt (or_default (Some v) ''10''))\<rparr>"
  by (simp add: parseArgs_def parse_loop.simps next_token_def no_args_def)

lemma parse_list_limit:
  "parseArgs [''--list-prs'', ''--limit'', v]
     = no_args\<lparr>arg_listPrs := True, arg_limit := Some (js_parseInt (or_default (Some v) ''10''))\<rparr>"
  by (simp add: parseArgs_def parse_loop.simps next_token_def no_args_def)

lemma parseInt_examples:
  "js_parseInt ''2'' = Num 2" "js_parseInt ''0'' = Num 0" "js_parseInt ''-2'' = Num (- 2)"
  "js_parseInt ''42'' = Num 42"
  by (simp_all add: js_parseInt_def is_space_def is_digit_def digit_val_def)

lemma resolve_with_token:
  "resolveGitHubToken w (start_proc [''GITHUB_TOKEN'' \<mapsto> ''ghp_1''])
     = (Inr ''ghp_1'', start_proc [''GITHUB_TOKEN'' \<mapsto> ''ghp_1'', ''GITHUB_ACTION'' \<mapsto> ''local''])"
  by (simp add: resolveGitHubToken_def start_proc_def truthy_def Let_def)

section \<open>The steps of the review flow\<close>

lemma set_review_env_frame [simp]:
  "stdout_writer (set_review_env n d ownr rep s) = stdout_writer s"
  "stderr_writer (set_review_env n d ownr rep s) = stderr_writer s"
  "stdout_out (set_review_env n d ownr rep s) = stdout_out s"
  "stderr_out (set_review_env n d ownr rep s) = stderr_out s"
  "fs_log (set_review_env n d ownr rep s) = fs_log s"
  "gh_calls (set_review_env n d ownr rep s) = gh_calls s"
  by (simp_all add: set_review_env_def Let_def)

lemma set_review_env_debug: "env (set_review_env n d ownr rep s) ''DEBUG'' = Some ''1''"
  by (simp add: set_review_env_def Let_def)

lemma begin_capture_frame [simp]:
  "env (begin_capture s) = env s"
  "stdout_writer (begin_capture s) = Intercepting"
  "stderr_writer (begin_capture s) = Intercepting"
  "chunks (begin_capture s) = []"
  "stdout_out (begin_capture s) = stdout_out s"
  "stderr_out (begin_capture s) = stderr_out s"
  "fs_log (begin_capture s) = fs_log s"
  "gh_calls (begin_capture s) = gh_calls s"
  by (simp_all add: begin_capture_def)

lemma run_writes_frame [simp]:
  "env (run_writes ws s) = env s"
  "stdout_writer (run_writes ws s) = stdout_writer s"
  "stderr_writer (run_writes ws s) = stderr_writer s"
  "fs_log (run_writes ws s) = fs_log s"
  "gh_calls (run_writes ws s) = gh_calls s"
  by (induction ws arbitrary: s) auto

lemma run_writes_stdout: "stdout_out (run_writes ws s) = stdout_out s @ writes_to Stdout ws"
  by (induction ws arbitrary: s) (auto simp: writes_to_def stream_write_out)

lemma run_writes_stderr: "stderr_out (run_writes ws s) = stderr_out s @ writes_to Stderr ws"
  by (induction ws arbitrary: s) (auto simp: writes_to_def stream_write_out)

lemma map_filter_Cons:
  "List.map_filter f (x # xs) = (case f x of None \<Rightarrow> [] | Some y \<Rightarrow> [y]) @ List.map_filter f xs"
  by (simp add: List.map_filter_def split: option.splits)

lemma run_writes_chunks:
  "stdout_writer s = Intercepting \<Longrightarrow> stderr_writer s = Intercepting \<Longrightarrow>
   chunks (run_writes ws s) = chunks s @ List.map_filter arg_text (map snd ws)"
proof (induction ws arbitrary: s)
  case Nil
  then show ?case
    by (simp add: List.map_filter_def)
next
  case (Cons x ws)
  obtain st a where x: "x = (st, a)"
    by (cases x)
  have "chunks (stream_write st a s) = chunks s @ (case arg_text a of None \<Rightarrow> [] | Some t \<Rightarrow> [t])"
    using Cons.prems by (cases st) (simp_all add: stream_write_chunks)
  then show ?case
    using Cons.prems Cons.IH [of "stream_write st a s"]
    by (simp add: x map_filter_Cons split: option.splits)
qed


lemma resolve_frame:
  "stdout_writer (snd (resolveGitHubToken w s)) = stdout_writer s"
  "stderr_writer (snd (resolveGitHubToken w s)) = stderr_writer s"
  "fs_log (snd (resolveGitHubToken w s)) = fs_log s"
  by (simp_all add: resolve_unfold loadDotEnvIfExists_def mark_local_def
      split: option.splits dotenv_outcome.splits)

lemma restore_ok:
  assumes "\<not> fs_denied w (path_dirname outPath)" and "\<not> fs_denied w outPath"
  shows "fst (restore w o1 o2 outPath s) = Inr ()"
    and "stdout_writer (snd (restore w o1 o2 outPath s)) = o1"
    and "stderr_writer (snd (restore w o1 o2 outPath s)) = o2"
    and "fs_log (snd (restore w o1 o2 outPath s))
           = fs_log s @ [Mkdir (path_dirname outPath), WriteFile outPath (concat (chunks s))]"
    and "stdout_out (snd (restore w o1 o2 outPath s)) = stdout_out s @ [saved_line w outPath]"
    and "stderr_out (snd (restore w o1 o2 outPath s)) = stderr_out s"
    and "env (snd (restore w o1 o2 outPath s)) = env s"
  using assms
  by (simp_all add: restore_def Let_def console_log_def stream_write_out saved_line_def)

lemma reviewPR_captured:
  assumes "resolveGitHubToken w s = (Inr token, s1)" and "out_truthy outArg"
  shows "reviewPR w h prNumber isDry ownr rep outArg s =
     (let s3 = begin_capture (set_review_env prNumber isDry ownr rep s1);
          s4 = run_writes (fst (h (env s3))) s3;
          fin = restore w (stdout_writer s1) (stderr_writer s1) (transcript_path w prNumber outArg) s4
      in (case fst fin of Inl e \<Rightarrow> Inl e | Inr u \<Rightarrow> snd (h (env s3)), snd fin))"
  using assms by (simp add: reviewPR_def Let_def split: prod.splits sum.splits)

lemma reviewPR_capture_effects:
  assumes "resolveGitHubToken w s = (Inr token, s1)"
    and "out_truthy outArg"
    and "\<not> fs_denied w (path_dirname (transcript_path w prNumber outArg))"
    and "\<not> fs_denied w (transcript_path w prNumber outArg)"
    and "handlePullRequest (env (set_review_env prNumber isDry ownr rep s1)) = (writes, outcome)"
  shows "fst (reviewPR w handlePullRequest prNumber isDry ownr rep outArg s) = outcome
    \<and> stdout_writer (snd (reviewPR w handlePullRequest prNumber isDry ownr rep outArg s)) = stdout_writer s
    \<and> stderr_writer (snd (reviewPR w handlePullRequest prNumber isDry ownr rep outArg s)) = stderr_writer s
    \<and> fs_log (snd (reviewPR w handlePullRequest prNumber isDry ownr rep outArg s))
        = fs_log s @ [Mkdir (path_dirname (transcript_path w prNumber outArg)),
                      WriteFile (transcript_path w prNumber outArg) (transcript_of writes)]
    \<and> stdout_out (snd (reviewPR w handlePullRequest prNumber isDry ownr rep outArg s))
        = stdout_out s @ writes_to Stdout writes @ [saved_line w (transcript_path w prNumber outArg)]
    \<and> stderr_out (snd (reviewPR w handlePullRequest prNumber isDry ownr rep outArg s))
        = stderr_out s1 @ writes_to Stderr writes"
proof -
  let ?p = "transcript_path w prNumber outArg"
  let ?s3 = "begin_capture (set_review_env prNumber isDry ownr rep s1)"
  let ?s4 = "run_writes writes ?s3"
  let ?fin = "restore w (stdout_writer s) (stderr_writer s) ?p ?s4"
  have s1: "stdout_writer s1 = stdout_writer s" "stderr_writer s1 = stderr_writer s"
    "fs_log s1 = fs_log s" "stdout_out s1 = stdout_out s"
    using resolve_frame [of w s] resolve_stdout [of w s] assms(1) by simp_all
  have run: "handlePullRequest (env ?s3) = (writes, outcome)"
    using assms(5) by simp
  note ok = restore_ok [OF assms(3,4), of "stdout_writer s" "stderr_writer s" ?s4]
  have "reviewPR w handlePullRequest prNumber isDry ownr rep outArg s
          = (case fst ?fin of Inl e \<Rightarrow> Inl e | Inr u \<Rightarrow> snd (handlePullRequest (env ?s3)), snd ?fin)"
    by (simp only: reviewPR_captured [OF assms(1,2)] Let_def run fst_conv s1)
  then have r: "reviewPR w handlePullRequest prNumber isDry ownr rep outArg s = (outcome, snd ?fin)"
    by (simp only: ok(1) run snd_conv sum.case)
  have c: "concat (chunks ?s4) = transcript_of writes"
    by (simp add: run_writes_chunks transcript_of_def)
  have "fst (reviewPR w handlePullRequest prNumber isDry ownr rep outArg s) = outcome"
    by (simp only: r fst_conv)
  moreover have "stdout_writer (snd (reviewPR w handlePullRequest prNumber isDry ownr rep outArg s)) = stdout_writer s"
    by (simp only: r snd_conv ok(2))
  moreover have "stderr_writer (snd (reviewPR w handlePullRequest prNumber isDry ownr rep outArg s)) = stderr_writer s"
    by (simp only: r snd_conv ok(3))
  moreover have "fs_log (snd (reviewPR w handlePullRequest prNumber isDry ownr rep outArg s))
        = fs_log s @ [Mkdir (path_dirname ?p), WriteFile ?p (transcript_of writes)]"
    by (simp only: r snd_conv ok(4) c) (simp add: s1)
  moreover have "stdout_out (snd (reviewPR w handlePullRequest prNumber isDry ownr rep outArg s))
        = stdout_out s @ writes_to Stdout writes @ [saved_line w ?p]"
    by (simp only: r snd_conv ok(5)) (simp add: run_writes_stdout s1)
  moreover have "stderr_out (snd (reviewPR w handlePullRequest prNumber isDry ownr rep outArg s))
        = stderr_out s1 @ writes_to Stderr writes"
    by (simp only: r snd_conv ok(6)) (simp add: run_writes_stderr)
  ultimately show ?thesis
    by blast
qed

lemma restore_keeps:
  "env (snd (restore w o1 o2 outPath s)) = env s"
  "stderr_out (snd (restore w o1 o2 outPath s)) = stderr_out s"
  by (simp_all add: restore_def Let_def console_log_def stream_write_out)

lemma restore_stdout: "\<exists>rest. stdout_out (snd (restore w o1 o2 outPath s)) = stdout_out s @ rest"
  by (simp add: restore_def Let_def console_log_def stream_write_out)

lemma reviewPR_no_credential:
  "resolveGitHubToken w s = (Inl e, s1) \<Longrightarrow> reviewPR w h prNumber isDry ownr rep outArg s = (Inl e, s1)"
  by (simp add: reviewPR_def)

lemma reviewPR_plain:
  assumes "resolveGitHubToken w s = (Inr token, s1)" and "\<not> out_truthy outArg"
  shows "reviewPR w h prNumber isDry ownr rep outArg s =
     (snd (h (env (set_review_env prNumber isDry ownr rep s1))),
      run_writes (fst (h (env (set_review_env prNumber isDry ownr rep s1))))
        (set_review_env prNumber isDry ownr rep s1))"
  using assms by (simp add: reviewPR_def Let_def)

lemma reviewPR_runs_in:
  assumes "resolveGitHubToken w s = (Inr token, s1)"
  shows "env (snd (reviewPR w h prNumber isDry ownr rep outArg s)) = env (set_review_env prNumber isDry ownr rep s1)"
    and "stderr_out (snd (reviewPR w h prNumber isDry ownr rep outArg s))
           = stderr_out s1 @ writes_to Stderr (fst (h (env (set_review_env prNumber isDry ownr rep s1))))"
    and "\<exists>rest. stdout_out (snd (reviewPR w h prNumber isDry ownr rep outArg s))
           = stdout_out s1 @ writes_to Stdout (fst (h (env (set_review_env prNumber isDry ownr rep s1)))) @ rest"
    and "\<not> out_truthy outArg \<Longrightarrow>
         fst (reviewPR w h prNumber isDry ownr rep outArg s) = snd (h (env (set_review_env prNumber isDry ownr rep s1)))"
proof -
  let ?s2 = "set_review_env prNumber isDry ownr rep s1"
  let ?s3 = "begin_capture ?s2"
  let ?ws = "fst (h (env ?s2))"
  let ?fin = "restore w (stdout_writer s1) (stderr_writer s1) (transcript_path w prNumber outArg) (run_writes ?ws ?s3)"
  have fin: "snd (reviewPR w h prNumber isDry ownr rep outArg s) = snd ?fin" if "out_truthy outArg"
    by (simp add: reviewPR_captured [OF assms that] Let_def)
  have plain: "snd (reviewPR w h prNumber isDry ownr rep outArg s) = run_writes ?ws ?s2" if "\<not> out_truthy outArg"
    by (simp add: reviewPR_plain [OF assms that])
  show "env (snd (reviewPR w h prNumber isDry ownr rep outArg s)) = env ?s2"
    by (cases "out_truthy outArg") (simp_all add: fin plain restore_keeps)
  show "stderr_out (snd (reviewPR w h prNumber isDry ownr rep outArg s)) = stderr_out s1 @ writes_to Stderr ?ws"
    by (cases "out_truthy outArg") (simp_all add: fin plain restore_keeps run_writes_stderr)
  show "\<exists>rest. stdout_out (snd (reviewPR w h prNumber isDry ownr rep outArg s))
           = stdout_out s1 @ writes_to Stdout ?ws @ rest"
  proof (cases "out_truthy outArg")
    case True
    obtain rest where "stdout_out (snd ?fin) = stdout_out (run_writes ?ws ?s3) @ rest"
      using restore_stdout by blast
    then show ?thesis
      by (simp add: fin [OF True] run_writes_stdout)
  next
    case False
    then show ?thesis
      by (simp add: plain run_writes_stdout)
  qed
  show "fst (reviewPR w h prNumber isDry ownr rep outArg s) = snd (h (env ?s2))" if "\<not> out_truthy outArg"
    by (simp add: reviewPR_plain [OF assms that])
qed


lemma plain_world_simps [simp]:
  "cwd (plain_world g) = ''/home/u/repo''"
  "fs_denied (plain_world g) p = False"
  "dotenv_file (plain_world g) = None"
  "gh_auth_token (plain_world g) = g"
  by (simp_all add: plain_world_def)

section \<open>Paths under the working directory\<close>

lemma split_on_not_Nil [simp]: "split_on c xs \<noteq> []"
  by (induction xs) (auto split: list.splits)

lemma split_on_append: "split_on c (xs @ c # ys) = split_on c xs @ split_on c ys"
  by (induction xs) (auto split: list.splits)

lemma split_on_plain: "c \<notin> set f \<Longrightarrow> split_on c f = [f]"
  by (induction f) (auto split: list.splits)

lemma norm_segs_Cons: "norm_segs b acc (seg # rest) = norm_segs b (norm_step b acc seg) rest"
  by (simp add: norm_step_def)

declare norm_segs.simps(2) [simp del]

lemma norm_segs_foldl: "norm_segs b acc xs = foldl (norm_step b) acc xs"
  by (induction xs arbitrary: acc) (simp_all add: norm_segs_Cons)

lemma norm_segs_append:
  "norm_segs b acc (xs @ ys) = norm_segs b (norm_segs b acc xs) ys"
  by (simp add: norm_segs_foldl)

lemma norm_step_nonempty: "[] \<notin> set acc \<Longrightarrow> [] \<notin> set (norm_step b acc seg)"
  by (auto simp: norm_step_def dest: in_set_butlastD)

lemma norm_segs_nonempty: "[] \<notin> set acc \<Longrightarrow> [] \<notin> set (norm_segs b acc xs)"
  by (induction xs arbitrary: acc) (simp_all add: norm_segs_Cons norm_step_nonempty)

lemma norm_step_plain: "plain_name f \<Longrightarrow> norm_step b acc f = acc @ [f]"
  by (simp add: norm_step_def plain_name_def)

lemma norm_segs_push: "plain_name d \<Longrightarrow> plain_name f \<Longrightarrow> norm_segs b acc [d, f] = acc @ [d, f]"
  by (simp add: norm_segs_Cons norm_step_plain)

lemma join_slash_snoc: "join_slash (xs @ [y]) = (if xs = [] then y else join_slash xs @ CHR ''/'' # y)"
  by (induction xs rule: join_slash.induct) auto

lemma join_slash_Nil_iff: "[] \<notin> set xs \<Longrightarrow> join_slash xs = [] \<longleftrightarrow> xs = []"
  by (induction xs rule: join_slash.induct) auto

lemma common_prefix_append: "common_prefix xs (xs @ ys) = length xs"
  by (induction xs) auto

lemma abs_segs_root [simp]: "abs_segs ''/'' = []" "abs_segs [] = []"
  by (simp_all add: abs_segs_def norm_segs_Cons norm_step_def)

lemma abs_segs_nonempty: "[] \<notin> set (abs_segs p)"
  unfolding abs_segs_def by (rule norm_segs_nonempty) simp

lemma abs_segs_file:
  assumes "plain_name d" and "plain_name f"
  shows "abs_segs (c @ CHR ''/'' # d @ CHR ''/'' # f) = abs_segs c @ [d, f]"
proof -
  have d: "split_on CHR ''/'' d = [d]" and f: "split_on CHR ''/'' f = [f]"
    using assms by (simp_all add: plain_name_def split_on_plain)
  have "split_on CHR ''/'' (c @ CHR ''/'' # d @ CHR ''/'' # f) = split_on CHR ''/'' c @ [d, f]"
    by (simp add: split_on_append d f)
  then show ?thesis
    by (simp only: abs_segs_def norm_segs_append norm_segs_push [OF assms])
qed

lemma is_cwd_root: "is_cwd p \<Longrightarrow> abs_segs p = [] \<Longrightarrow> p = ''/''"
proof -
  assume c: "is_cwd p" and n: "abs_segs p = []"
  then have "path_normalize p = ''/''"
    by (simp add: is_cwd_def path_normalize_def Let_def path_isAbsolute_def abs_segs_def [symmetric])
  moreover have "path_normalize p = p"
    using c by (simp add: is_cwd_def)
  ultimately show "p = ''/''"
    by simp
qed

lemma is_cwd_join:
  assumes "is_cwd p" and "abs_segs p \<noteq> []"
  shows "CHR ''/'' # join_slash (abs_segs p) = p"
proof -
  have abs: "path_isAbsolute p" and norm: "path_normalize p = p" and tr: "p = ''/'' \<or> last p \<noteq> CHR ''/''"
    using assms(1) by (simp_all add: is_cwd_def)
  have j: "join_slash (abs_segs p) \<noteq> []"
    using assms(2) abs_segs_nonempty [of p] by (simp add: join_slash_Nil_iff)
  have "p \<noteq> ''/''"
    using assms(2) by auto
  with tr have l: "last p \<noteq> CHR ''/''"
    by simp
  have "path_normalize p = CHR ''/'' # join_slash (abs_segs p)"
    using abs j l by (simp add: path_normalize_def Let_def path_isAbsolute_def abs_segs_def [symmetric])
  with norm show ?thesis
    by metis
qed


lemma plain_name_last: "plain_name f \<Longrightarrow> last f \<noteq> CHR ''/''"
  by (metis last_in_set plain_name_def)

lemma cwd_not_empty: "is_cwd p \<Longrightarrow> p \<noteq> []"
  by (auto simp: is_cwd_def path_isAbsolute_def)

lemma under_cwd_segs:
  assumes "is_cwd (cwd w)" and "plain_name d" and "plain_name f"
  shows "CHR ''/'' # join_slash (abs_segs (cwd w) @ [d, f]) = under_cwd w (d @ CHR ''/'' # f)"
proof (cases "abs_segs (cwd w) = []")
  case True
  with assms(1) have "cwd w = ''/''"
    by (rule is_cwd_root)
  with True show ?thesis
    by (simp add: under_cwd_def)
next
  case False
  with assms(1) have c: "CHR ''/'' # join_slash (abs_segs (cwd w)) = cwd w"
    by (rule is_cwd_join)
  have "cwd w \<noteq> ''/''"
    using False by auto
  moreover have "join_slash (abs_segs (cwd w) @ [d, f])
      = join_slash (abs_segs (cwd w)) @ CHR ''/'' # d @ CHR ''/'' # f"
    using False join_slash_snoc [of "abs_segs (cwd w) @ [d]" f] join_slash_snoc [of "abs_segs (cwd w)" d]
    by simp
  ultimately show ?thesis
    using c by (simp add: under_cwd_def flip: append_Cons)
qed

lemma under_cwd_abs_segs:
  assumes "is_cwd (cwd w)" and "plain_name d" and "plain_name f"
  shows "abs_segs (under_cwd w (d @ CHR ''/'' # f)) = abs_segs (cwd w) @ [d, f]"
proof (cases "cwd w = ''/''")
  case True
  have "abs_segs ([] @ CHR ''/'' # d @ CHR ''/'' # f) = abs_segs [] @ [d, f]"
    using assms(2,3) by (rule abs_segs_file)
  with True show ?thesis
    by (simp add: under_cwd_def)
next
  case False
  then show ?thesis
    using abs_segs_file [OF assms(2,3), of "cwd w"] by (simp add: under_cwd_def)
qed

lemma path_join_under:
  assumes "is_cwd (cwd w)" and "plain_name d" and "plain_name f"
  shows "path_join [cwd w, d, f] = under_cwd w (d @ CHR ''/'' # f)"
proof -
  let ?x = "cwd w @ CHR ''/'' # d @ CHR ''/'' # f"
  have c: "cwd w \<noteq> []" and h: "hd (cwd w) = CHR ''/''"
    using assms(1) by (auto simp: is_cwd_def path_isAbsolute_def)
  have f: "f \<noteq> []" "last f \<noteq> CHR ''/''" "d \<noteq> []"
    using assms(2,3) plain_name_last [OF assms(3)] by (simp_all add: plain_name_def)
  have j: "path_join [cwd w, d, f] = path_normalize ?x"
    using c f by (simp add: path_join_def)
  have a: "path_isAbsolute ?x"
    using c h by (simp add: path_isAbsolute_def)
  have l: "last ?x \<noteq> CHR ''/''"
    using f by simp
  have s: "abs_segs ?x = abs_segs (cwd w) @ [d, f]"
    using assms(2,3) by (rule abs_segs_file)
  have b: "join_slash (abs_segs (cwd w) @ [d, f]) \<noteq> []"
    using abs_segs_nonempty [of "cwd w"] f by (simp add: join_slash_Nil_iff)
  have "path_normalize ?x = CHR ''/'' # join_slash (abs_segs (cwd w) @ [d, f])"
    using a l b by (simp add: path_normalize_def Let_def abs_segs_def [symmetric] s)
  then show ?thesis
    by (simp only: j under_cwd_segs [OF assms])
qed

lemma path_relative_under:
  assumes "is_cwd (cwd w)" and "plain_name d" and "plain_name f"
  shows "path_relative (cwd w) (cwd w) (under_cwd w (d @ CHR ''/'' # f)) = d @ CHR ''/'' # f"
proof -
  have a: "path_isAbsolute (cwd w)"
    using assms(1) by (simp add: is_cwd_def)
  then have u: "path_isAbsolute (under_cwd w (d @ CHR ''/'' # f))"
    by (simp add: under_cwd_def path_isAbsolute_def)
  have "resolve_segs (cwd w) (cwd w) = abs_segs (cwd w)"
    using a by (simp add: resolve_segs_def abs_segs_def)
  moreover have "resolve_segs (cwd w) (under_cwd w (d @ CHR ''/'' # f)) = abs_segs (cwd w) @ [d, f]"
    using u by (simp add: resolve_segs_def abs_segs_def [symmetric] under_cwd_abs_segs [OF assms])
  ultimately show ?thesis
    by (simp add: path_relative_def Let_def common_prefix_append)
qed

lemma path_dirname_file:
  assumes "plain_name f" and "x \<noteq> []"
  shows "path_dirname ((c # x) @ CHR ''/'' # f) = c # x"
proof -
  have f: "rev f \<noteq> []" "hd (rev f) \<noteq> CHR ''/''" "\<forall>y\<in>set (rev f). y \<noteq> CHR ''/''"
    using assms(1) plain_name_last [OF assms(1)] by (auto simp: plain_name_def hd_rev)
  have "dropWhile (\<lambda>y. y = CHR ''/'') (rev f @ CHR ''/'' # rev x) = rev f @ CHR ''/'' # rev x"
    using f(1,2) by (cases "rev f") simp_all
  moreover have "dropWhile (\<lambda>y. y \<noteq> CHR ''/'') (rev f @ CHR ''/'' # rev x) = CHR ''/'' # rev x"
    using f(3) by (simp add: dropWhile_append)
  ultimately show ?thesis
    using assms(2) by (simp add: path_dirname_def)
qed

lemma path_dirname_under:
  assumes "is_cwd (cwd w)" and "plain_name d" and "plain_name f"
  shows "path_dirname (under_cwd w (d @ CHR ''/'' # f)) = under_cwd w d"
proof -
  have c: "cwd w \<noteq> []" and d: "d \<noteq> []"
    using assms(1,2) by (auto simp: cwd_not_empty plain_name_def)
  have "\<exists>a x. under_cwd w d = a # x \<and> x \<noteq> []"
  proof (cases "cwd w = ''/''")
    case True
    with d show ?thesis
      by (simp add: under_cwd_def)
  next
    case False
    with c d show ?thesis
      by (cases "cwd w") (simp_all add: under_cwd_def)
  qed
  then obtain a x where u: "under_cwd w d = a # x" and x: "x \<noteq> []"
    by blast
  have "under_cwd w (d @ CHR ''/'' # f) = under_cwd w d @ CHR ''/'' # f"
    by (simp add: under_cwd_def)
  then show ?thesis
    using path_dirname_file [OF assms(3) x, of a] by (simp add: u)
qed

section \<open>The default transcript path\<close>

lemma is_digit_digit_char: "d < 10 \<Longrightarrow> is_digit (digit_char d)"
  by (simp add: is_digit_def digit_char_def)

lemma not_digit_chars [simp]: "\<not> is_digit CHR ''-''" "\<not> is_digit CHR ''/''"
  by (simp_all add: is_digit_def)

lemma nat_digits_all_digits: "list_all is_digit (nat_digits n)"
proof (induction n rule: nat_digits.induct)
  case (1 n)
  show ?case
  proof (cases "n < 10")
    case True
    then show ?thesis
      by (simp add: nat_digits_small is_digit_digit_char)
  next
    case False
    with "1.IH" show ?thesis
      by (simp add: nat_digits_step is_digit_digit_char)
  qed
qed

lemma nat_digits_not_Nil: "nat_digits n \<noteq> []"
  by (cases "n < 10") (simp_all add: nat_digits_small nat_digits_step)

lemma filter_all: "list_all P xs \<Longrightarrow> filter P xs = xs"
  by (induction xs) simp_all

lemma sanitized_digits: "sanitizedPrNum n = nat_digits (nat \<bar>n\<bar>)"
  by (simp add: sanitizedPrNum_def js_string_of_int_def filter_all nat_digits_all_digits)

lemma plain_name_dry: "plain_name ''dry''"
  by (simp add: plain_name_def)

lemma plain_name_pr_file: "plain_name (''pr-'' @ sanitizedPrNum n @ ''.txt'')"
proof -
  have "CHR ''/'' \<notin> set (nat_digits (nat \<bar>n\<bar>))"
    using nat_digits_all_digits [of "nat \<bar>n\<bar>"] by (auto simp: list_all_iff)
  then show ?thesis
    by (simp add: plain_name_def sanitized_digits)
qed

lemma default_out_path_under:
  "is_cwd (cwd w) \<Longrightarrow> default_out_path w n = under_cwd w (''dry/pr-'' @ sanitizedPrNum n @ ''.txt'')"
  using path_join_under [OF _ plain_name_dry plain_name_pr_file, of w n]
  by (simp add: default_out_path_def)

lemma default_out_dir:
  "is_cwd (cwd w) \<Longrightarrow> path_dirname (default_out_path w n) = under_cwd w ''dry''"
  using path_dirname_under [OF _ plain_name_dry plain_name_pr_file, of w n]
  by (simp add: default_out_path_under)

lemma default_out_relative:
  "is_cwd (cwd w) \<Longrightarrow>
   path_relative (cwd w) (cwd w) (default_out_path w n) = ''dry/pr-'' @ sanitizedPrNum n @ ''.txt''"
  using path_relative_under [OF _ plain_name_dry plain_name_pr_file, of w n]
  by (simp add: default_out_path_under)

lemma sanitized_42: "sanitizedPrNum 42 = ''42''"
  by (simp add: sanitized_digits nat_digits_step nat_digits_small digit_char_simps)

lemma parse_pr_dry_out:
  "parseArgs [''--pr'', ''42'', ''--dry-run'', ''--out'']
     = no_args\<lparr>arg_pr := Some (Num 42), arg_dryRun := True, arg_out := Some (OutBool True)\<rparr>"
  by (simp add: parseArgs_def parse_loop.simps next_token_def no_args_def or_default_def parseInt_examples)

lemma main_review:
  "\<not> arg_listPrs (parseArgs argv) \<Longrightarrow> arg_pr (parseArgs argv) = Some (Num n) \<Longrightarrow> n \<noteq> 0 \<Longrightarrow>
   main w h argv s =
     reviewPR w h n (arg_dryRun (parseArgs argv)) (target_owner (parseArgs argv) s)
       (target_repo (parseArgs argv) s) (arg_out (parseArgs argv)) s"
  by (simp add: main_def Let_def)

lemma example_cwd:
  "is_cwd ''/home/u/repo''"
  "js_trim ''  '' = []"
  by code_simp+

lemma example_under:
  "under_cwd (plain_world g) rel = ''/home/u/repo/'' @ rel"
  by (simp add: under_cwd_def)

section \<open>The inference provider: what holds\<close>

lemma has_sentinel_payload: "sentinel_payload obj = Some x \<Longrightarrow> has_sentinel obj"
  by (cases obj) (auto dest: map_of_SomeD intro: rev_image_eqI)

lemma handle_response_wrapped:
  "sentinel_payload obj = Some x \<Longrightarrow> handle_response S obj = zod_parse S x"
  by (simp add: handle_response_def has_sentinel_payload)

lemma handle_response_direct: "\<not> has_sentinel obj \<Longrightarrow> handle_response S obj = Inr obj"
  by (simp add: handle_response_def)

text \<open>
  Claim C1. A response without the sentinel key is returned as it is, and nothing checks
  it against the schema: here the schema rejects the response (\<open>parse\<close> fails on the
  number where a string is expected), the response has no sentinel key, and
  \<open>runInference\<close> still returns it instead of failing with a validation error. The
  same value wrapped under the sentinel key does fail with the validation error: only
  that path parses with the schema.
\<close>

theorem runInference_direct_unvalidated:
  "parse summary_schema (JObj [(''summary'', JNum 42)]) = Inl [''Expected an object with the string summary'']
   \<and> has_sentinel (JObj [(''summary'', JNum 42)]) = False
   \<and> snd (runInference ''key'' ''model'' (fixed_backend (JObj [(''summary'', JNum 42)])) Map.empty summary_request)
       = Inr (JObj [(''summary'', JNum 42)])
   \<and> snd (runInference ''key'' ''model''
            (fixed_backend (JObj [(''$PARAMETER_NAME'', JObj [(''summary'', JNum 42)])])) Map.empty summary_request)
       = Inl (SchemaValidationError [''Expected an object with the string summary''])"
  by (simp add: summary_schema_def summary_request_def fixed_backend_def runInference_def
      handle_response_def sentinel_key_def truthy_def zod_parse_def)

text \<open>
  Claim C2, as first stated, fails: what is returned for a wrapped response is what
  \<open>schema.parse\<close> returns on the payload, and a Zod schema may accept a payload and
  return another value (an object schema drops the keys it does not name). Here the
  payload has the string \<open>summary\<close> and one more key; the schema accepts it and
  \<open>runInference\<close> returns the object without that key, not the payload.
\<close>

theorem runInference_returns_parsed_not_payload:
  "map_of [(''$PARAMETER_NAME'', JObj [(''summary'', JStr ''Looks good''), (''extra'', JNum 1)])] sentinel_key
     = Some (JObj [(''summary'', JStr ''Looks good''), (''extra'', JNum 1)])
   \<and> parse summary_schema (JObj [(''summary'', JStr ''Looks good''), (''extra'', JNum 1)])
       = Inr (JObj [(''summary'', JStr ''Looks good'')])
   \<and> snd (runInference ''key'' ''model''
            (fixed_backend (JObj [(''$PARAMETER_NAME'',
                                   JObj [(''summary'', JStr ''Looks good''), (''extra'', JNum 1)])]))
            Map.empty summary_request)
       = Inr (JObj [(''summary'', JStr ''Looks good'')])
   \<and> JObj [(''summary'', JStr ''Looks good'')]
       \<noteq> JObj [(''summary'', JStr ''Looks good''), (''extra'', JNum 1)]"
  by (simp add: summary_schema_def summary_request_def fixed_backend_def runInference_def
      handle_response_def sentinel_key_def truthy_def zod_parse_def)

text \<open>
  Claim C2, amended. When the backend's response is an object with the sentinel key and
  payload \<open>x\<close>, \<open>runInference\<close> parses \<open>x\<close> with the original schema: when the
  schema accepts \<open>x\<close> the result is exactly the value \<open>schema.parse\<close> returns for
  it (\<open>x\<close> itself when the schema hands it back unchanged), not the wrapped response;
  and when the schema rejects \<open>x\<close> the call fails with the validation error carrying
  the schema's issues.
\<close>

theorem runInference_unwraps:
  assumes "generateObject
             \<lparr> api_key = llmApiKey, model_name = modelName, req_prompt = prompt cfg,
               req_temperature = temperature_or_zero (temperature cfg),
               req_system = system cfg, req_schema = json_schema (schema cfg) \<rparr> = Inr r"
    and "object r = JObj props"
    and "map_of props sentinel_key = Some x"
  shows "(\<forall>y. parse (schema cfg) x = Inr y
              \<longrightarrow> snd (runInference llmApiKey modelName generateObject penv cfg) = Inr y)
         \<and> (\<forall>issues. parse (schema cfg) x = Inl issues
              \<longrightarrow> snd (runInference llmApiKey modelName generateObject penv cfg)
                    = Inl (SchemaValidationError issues))"
proof -
  have "sentinel_payload (object r) = Some x"
    using assms(2,3) by simp
  then have "handle_response (schema cfg) (object r) = zod_parse (schema cfg) x"
    by (rule handle_response_wrapped)
  then have "snd (runInference llmApiKey modelName generateObject penv cfg) = zod_parse (schema cfg) x"
    using assms(1) by (simp add: runInference_def)
  then show ?thesis
    by (simp add: zod_parse_def)
qed

theorem runInference_unwraps_witness:
  "parse summary_schema (JObj [(''summary'', JStr ''Looks good'')])
     = Inr (JObj [(''summary'', JStr ''Looks good'')])
   \<and> snd (runInference ''key'' ''model''
          (fixed_backend (JObj [(''$PARAMETER_NAME'', JObj [(''summary'', JStr ''Looks good'')])]))
          Map.empty summary_request)
     = Inr (JObj [(''summary'', JStr ''Looks good'')])
   \<and> parse summary_schema (JObj [(''summary'', JStr ''ok''), (''extra'', JNum 1)])
     = Inr (JObj [(''summary'', JStr ''ok'')])
   \<and> snd (runInference ''key'' ''model''
          (fixed_backend (JObj [(''$PARAMETER_NAME'', JObj [(''summary'', JStr ''ok''), (''extra'', JNum 1)])]))
          Map.empty summary_request)
     = Inr (JObj [(''summary'', JStr ''ok'')])
   \<and> parse summary_schema (JObj [(''title'', JStr ''ok'')])
     = Inl [''Expected an object with the string summary'']
   \<and> snd (runInference ''key'' ''model''
          (fixed_backend (JObj [(''$PARAMETER_NAME'', JObj [(''title'', JStr ''ok'')])]))
          Map.empty summary_request)
     = Inl (SchemaValidationError [''Expected an object with the string summary''])"
proof -
  let ?x = "JObj [(''summary'', JStr ''Looks good'')]"
  let ?y = "JObj [(''summary'', JStr ''ok''), (''extra'', JNum 1)]"
  let ?z = "JObj [(''title'', JStr ''ok'')]"
  have backend: "fixed_backend (JObj [(''$PARAMETER_NAME'', v)])
             \<lparr> api_key = ''key'', model_name = ''model'', req_prompt = prompt summary_request,
               req_temperature = temperature_or_zero (temperature summary_request),
               req_system = system summary_request,
               req_schema = json_schema (schema summary_request) \<rparr>
           = Inr \<lparr> object = JObj [(''$PARAMETER_NAME'', v)], usage = ''{}'' \<rparr>" for v
    by (simp add: fixed_backend_def)
  have obj: "object \<lparr> object = JObj [(''$PARAMETER_NAME'', v)], usage = ''{}'' \<rparr>
               = JObj [(''$PARAMETER_NAME'', v)]" for v
    by simp
  have key: "map_of [(''$PARAMETER_NAME'', v)] sentinel_key = Some v" for v :: json
    by (simp add: sentinel_key_def)
  have px: "parse (schema summary_request) ?x = Inr ?x"
    and py: "parse (schema summary_request) ?y = Inr (JObj [(''summary'', JStr ''ok'')])"
    and pz: "parse (schema summary_request) ?z = Inl [''Expected an object with the string summary'']"
    by (simp_all add: summary_request_def summary_schema_def)
  note X = runInference_unwraps [of "fixed_backend (JObj [(''$PARAMETER_NAME'', ?x)])" "''key''" "''model''"
      summary_request _ _ ?x Map.empty, OF backend [of ?x] obj [of ?x] key [of ?x]]
  note Y = runInference_unwraps [of "fixed_backend (JObj [(''$PARAMETER_NAME'', ?y)])" "''key''" "''model''"
      summary_request _ _ ?y Map.empty, OF backend [of ?y] obj [of ?y] key [of ?y]]
  note Z = runInference_unwraps [of "fixed_backend (JObj [(''$PARAMETER_NAME'', ?z)])" "''key''" "''model''"
      summary_request _ _ ?z Map.empty, OF backend [of ?z] obj [of ?z] key [of ?z]]
  from X px have x: "snd (runInference ''key'' ''model'' (fixed_backend (JObj [(''$PARAMETER_NAME'', ?x)]))
      Map.empty summary_request) = Inr ?x"
    by blast
  from Y py have y: "snd (runInference ''key'' ''model'' (fixed_backend (JObj [(''$PARAMETER_NAME'', ?y)]))
      Map.empty summary_request) = Inr (JObj [(''summary'', JStr ''ok'')])"
    by blast
  from Z pz have z: "snd (runInference ''key'' ''model'' (fixed_backend (JObj [(''$PARAMETER_NAME'', ?z)]))
      Map.empty summary_request) = Inl (SchemaValidationError [''Expected an object with the string summary''])"
    by blast
  from x y z px py pz show ?thesis
    by (simp add: summary_request_def)
qed

section \<open>Credential resolution: what holds\<close>




text \<open>
  Claim C4. After a successful resolution every later call returns the same token and
  does not run \<open>gh auth token\<close>, whatever the sources would yield by then: the call
  right after changes nothing at all, and so does any call from a state whose
  \<open>GITHUB_TOKEN\<close> is still the cached one.
\<close>

theorem resolveGitHubToken_idempotent:
  assumes "resolveGitHubToken w s = (Inr t, s1)"
    and "env s2 ''GITHUB_TOKEN'' = env s1 ''GITHUB_TOKEN''"
  shows "resolveGitHubToken w2 s1 = (Inr t, s1)
         \<and> fst (resolveGitHubToken w2 s2) = Inr t
         \<and> gh_calls (snd (resolveGitHubToken w2 s2)) = gh_calls s2
         \<and> env (snd (resolveGitHubToken w2 s2)) ''GITHUB_TOKEN'' = Some t"
proof -
  note c = resolve_cached [OF assms(1)]
  have "resolveGitHubToken w2 s1 = (Inr t, mark_local s1)"
    using c(1,2) by (rule resolve_explicit)
  moreover have "mark_local s1 = s1"
    using c(3) by (rule mark_local_idem)
  moreover have "resolveGitHubToken w2 s2 = (Inr t, mark_local s2)"
    using c(1,2) assms(2) by (simp add: resolve_explicit)
  ultimately show ?thesis
    using c(1) assms(2) by simp
qed

theorem resolveGitHubToken_idempotent_witness:
  "resolveGitHubToken (plain_world (GhPrints ''gho_2\<newline>'')) (start_proc Map.empty)
     = (Inr ''gho_2'', (start_proc [''GITHUB_ACTION'' \<mapsto> ''local'', ''GITHUB_TOKEN'' \<mapsto> ''gho_2''])\<lparr>gh_calls := 1\<rparr>)
   \<and> resolveGitHubToken (plain_world GhFails)
        ((start_proc [''GITHUB_ACTION'' \<mapsto> ''local'', ''GITHUB_TOKEN'' \<mapsto> ''gho_2''])\<lparr>gh_calls := 1\<rparr>)
     = (Inr ''gho_2'', (start_proc [''GITHUB_ACTION'' \<mapsto> ''local'', ''GITHUB_TOKEN'' \<mapsto> ''gho_2''])\<lparr>gh_calls := 1\<rparr>)
   \<and> gh_calls (snd (resolveGitHubToken (plain_world GhFails)
        ((start_proc [''GITHUB_ACTION'' \<mapsto> ''local'', ''GITHUB_TOKEN'' \<mapsto> ''gho_2''])\<lparr>gh_calls := 1\<rparr>))) = 1"
proof -
  let ?s1 = "(start_proc [''GITHUB_ACTION'' \<mapsto> ''local'', ''GITHUB_TOKEN'' \<mapsto> ''gho_2''])\<lparr>gh_calls := 1\<rparr>"
  have first: "resolveGitHubToken (plain_world (GhPrints ''gho_2\<newline>'')) (start_proc Map.empty) = (Inr ''gho_2'', ?s1)"
    by (simp add: resolveGitHubToken_def loadDotEnvIfExists_def execSync_gh_def plain_world_def
        start_proc_def truthy_def trim_token Let_def)
  have same: "env ?s1 ''GITHUB_TOKEN'' = env ?s1 ''GITHUB_TOKEN''"
    by simp
  from resolveGitHubToken_idempotent [OF first same, of "plain_world GhFails"] first
  show ?thesis
    by simp
qed

text \<open>
  Claim C10. Whatever the sources yield, after a call \<open>GITHUB_ACTION\<close> holds its
  previous value when that was set and non-empty, and \<open>local\<close> otherwise; so a call
  that fails with the no-credential error from a state without the flag has changed the
  environment.
\<close>

theorem resolveGitHubToken_marks_local:
  "env (snd (resolveGitHubToken w s)) ''GITHUB_ACTION''
     = (if truthy (env s ''GITHUB_ACTION'') then env s ''GITHUB_ACTION'' else Some ''local'')
   \<and> (\<forall>e. fst (resolveGitHubToken w s) = Inl e \<and> \<not> truthy (env s ''GITHUB_ACTION'')
          \<longrightarrow> env (snd (resolveGitHubToken w s)) \<noteq> env s)"
proof -
  have a: "env (snd (resolveGitHubToken w s)) ''GITHUB_ACTION''
     = (if truthy (env s ''GITHUB_ACTION'') then env s ''GITHUB_ACTION'' else Some ''local'')"
    by (simp only: resolve_action mark_local_action)
  have "env (snd (resolveGitHubToken w s)) \<noteq> env s" if "\<not> truthy (env s ''GITHUB_ACTION'')"
  proof
    assume "env (snd (resolveGitHubToken w s)) = env s"
    then have "env s ''GITHUB_ACTION'' = Some ''local''"
      using a that by simp
    then show False
      using that by (simp add: truthy_def)
  qed
  with a show ?thesis
    by blast
qed

theorem resolveGitHubToken_marks_local_witness:
  "fst (resolveGitHubToken (plain_world GhFails) (start_proc Map.empty)) = Inl (NoCredentialError no_token_message)
   \<and> truthy (env (start_proc Map.empty) ''GITHUB_ACTION'') = False
   \<and> env (snd (resolveGitHubToken (plain_world GhFails) (start_proc Map.empty))) ''GITHUB_ACTION'' = Some ''local''
   \<and> env (snd (resolveGitHubToken (plain_world GhFails) (start_proc Map.empty))) \<noteq> env (start_proc Map.empty)"
proof -
  have f: "fst (resolveGitHubToken (plain_world GhFails) (start_proc Map.empty)) = Inl (NoCredentialError no_token_message)"
    by (simp add: resolveGitHubToken_def loadDotEnvIfExists_def execSync_gh_def plain_world_def
        start_proc_def truthy_def Let_def)
  have n: "truthy (env (start_proc Map.empty) ''GITHUB_ACTION'') = False"
    by (simp add: start_proc_def truthy_def)
  from resolveGitHubToken_marks_local [of "plain_world GhFails" "start_proc Map.empty"] f n
  show ?thesis
    by simp
qed

section \<open>Argument parsing: what holds\<close>

text \<open>
  Claim C6, as stated, fails on an empty token: the token after \<open>--out\<close> exists and
  does not start with a dash, yet the result is the boolean state and the token is not
  consumed (it is read next, as a positional argument).
\<close>

theorem parseArgs_out_empty_token:
  "\<not> starts_with_dash [] \<and>
   parseArgs [''--out'', []] = no_args\<lparr>arg_out := Some (OutBool True), arg_positional := [[]]\<rparr>"
  by (simp add: parseArgs_def no_args_def next_token_def starts_with_dash_def parse_loop.simps)

text \<open>
  Claim C6, amended. When the loop is at \<open>--out\<close> or \<open>-out\<close>: a next token
  that is not empty and does not start with a dash becomes the output path and the loop
  goes on after it; when the next token is empty or starts with a dash, the output is the
  boolean enabled state and the loop goes on at that token; at the end of the input the
  output is the boolean enabled state.
\<close>

theorem parse_loop_out:
  assumes "a = ''--out'' \<or> a = ''-out''"
  shows "(nxt \<noteq> [] \<and> \<not> starts_with_dash nxt
            \<longrightarrow> parse_loop args (a # nxt # rest) = parse_loop (args\<lparr>arg_out := Some (OutPath nxt)\<rparr>) rest)
         \<and> (nxt = [] \<or> starts_with_dash nxt
            \<longrightarrow> parse_loop args (a # nxt # rest) = parse_loop (args\<lparr>arg_out := Some (OutBool True)\<rparr>) (nxt # rest))
         \<and> parse_loop args [a] = args\<lparr>arg_out := Some (OutBool True)\<rparr>"
  by (auto simp: parse_loop_out_step [OF assms] next_token_def parse_loop.simps(1))

theorem parse_loop_out_witness:
  "parseArgs [''--out'', ''notes.txt'', ''--dry-run'']
     = no_args\<lparr>arg_dryRun := True, arg_out := Some (OutPath ''notes.txt'')\<rparr>
   \<and> parseArgs [''-out'', ''--dry-run'']
     = no_args\<lparr>arg_dryRun := True, arg_out := Some (OutBool True)\<rparr>
   \<and> parseArgs [''--out''] = no_args\<lparr>arg_out := Some (OutBool True)\<rparr>"
proof -
  have d: "parse_loop b [''--dry-run''] = b\<lparr>arg_dryRun := True\<rparr>" for b
    by (simp add: parse_loop.simps)
  have "parse_loop no_args [''--out'', ''notes.txt'', ''--dry-run'']
          = parse_loop (no_args\<lparr>arg_out := Some (OutPath ''notes.txt'')\<rparr>) [''--dry-run'']"
    using parse_loop_out [of "''--out''" "''notes.txt''" no_args "[''--dry-run'']"]
    by (simp add: starts_with_dash_def)
  moreover have "parse_loop no_args [''-out'', ''--dry-run'']
          = parse_loop (no_args\<lparr>arg_out := Some (OutBool True)\<rparr>) [''--dry-run'']"
    using parse_loop_out [of "''-out''" "''--dry-run''" no_args "[]"]
    by (simp add: starts_with_dash_def)
  moreover have "parse_loop no_args [''--out''] = no_args\<lparr>arg_out := Some (OutBool True)\<rparr>"
    using parse_loop_out [of "''--out''" "[]" no_args "[]"]
    by blast
  ultimately show ?thesis
    by (simp only: parseArgs_def d) (simp add: no_args_def)
qed

section \<open>The listing flow: what holds\<close>

text \<open>
  Claim C7, as stated, fails where the configured limit is not a positive number: with
  \<open>--limit 0\<close> the limit is replaced by the default 10 (\<open>args.limit || 10\<close>) and
  all five pull requests are printed; with \<open>--limit -2\<close> the slice drops the last two
  and three lines are printed.
\<close>

theorem listing_limit_not_a_cap:
  "arg_limit (parseArgs [''--list-prs'', ''--limit'', ''0'']) = Some (Num 0)
   \<and> length (stdout_out (snd (main (plain_world GhFails) quiet_review [''--list-prs'', ''--limit'', ''0'']
                      (start_proc [''GITHUB_TOKEN'' \<mapsto> ''ghp_1''])))) = 5
   \<and> arg_limit (parseArgs [''--list-prs'', ''--limit'', ''-2'']) = Some (Num (- 2))
   \<and> length (stdout_out (snd (main (plain_world GhFails) quiet_review [''--list-prs'', ''--limit'', ''-2'']
                      (start_proc [''GITHUB_TOKEN'' \<mapsto> ''ghp_1''])))) = 3"
proof -
  let ?s = "start_proc [''GITHUB_TOKEN'' \<mapsto> ''ghp_1'']"
  let ?w = "plain_world GhFails"
  have run: "snd (main ?w quiet_review [''--list-prs'', ''--limit'', v] ?s)
      = print_pulls (js_slice0 five_pulls (limit_or_default (Some (js_parseInt (or_default (Some v) ''10'')))))
          (start_proc [''GITHUB_TOKEN'' \<mapsto> ''ghp_1'', ''GITHUB_ACTION'' \<mapsto> ''local''])" for v
    by (simp add: main_def Let_def parse_list_limit no_args_def listPRs_def resolve_with_token plain_world_def)
  have zero: "js_slice0 five_pulls (limit_or_default (Some (js_parseInt (or_default (Some ''0'') ''10'')))) = five_pulls"
    by (simp add: or_default_def parseInt_examples limit_or_default_def js_slice0_def five_pulls_def)
  have neg: "js_slice0 five_pulls (limit_or_default (Some (js_parseInt (or_default (Some ''-2'') ''10'')))) = take 3 five_pulls"
    by (simp add: or_default_def parseInt_examples limit_or_default_def js_slice0_def five_pulls_def)
  have len: "length five_pulls = 5"
    by (simp add: five_pulls_def)
  have z: "arg_limit (parseArgs [''--list-prs'', ''--limit'', ''0'']) = Some (Num 0)"
    by (simp add: parse_list_limit or_default_def parseInt_examples no_args_def)
  have n: "arg_limit (parseArgs [''--list-prs'', ''--limit'', ''-2'']) = Some (Num (- 2))"
    by (simp add: parse_list_limit or_default_def parseInt_examples no_args_def)
  have "length (stdout_out (snd (main ?w quiet_review [''--list-prs'', ''--limit'', ''0''] ?s))) = 5"
    by (simp only: run zero print_pulls_stdout) (simp add: len start_proc_def)
  moreover have "length (stdout_out (snd (main ?w quiet_review [''--list-prs'', ''--limit'', ''-2''] ?s))) = 3"
    by (simp only: run neg print_pulls_stdout) (simp add: len start_proc_def)
  ultimately show ?thesis
    using z n by blast
qed

text \<open>
  Claim C7, amended. When the listing flow is selected, the credential resolves and the
  platform answers with pages of pull requests, then for a positive limit \<open>n\<close> the
  flow prints one line (number, title, author handle) for each of the first \<open>n\<close>
  pull requests of the pages in their order, and nothing else; the limit is 10 when
  \<open>--limit\<close> is absent, zero or not a number.
\<close>

theorem listing_prints_first_n:
  assumes "arg_listPrs (parseArgs argv)"
    and "resolveGitHubToken w s = (Inr token, s1)"
    and "pulls_list w (pulls_request token s1 (target_owner (parseArgs argv) s) (target_repo (parseArgs argv) s)
           (or_default (arg_state (parseArgs argv)) ''open'')) = Inr pages"
    and "limit_or_default (arg_limit (parseArgs argv)) = Num n"
    and "0 < n"
  shows "fst (main w h argv s) = Inr ()
         \<and> stdout_out (snd (main w h argv s))
             = stdout_out s @ map (\<lambda>p. Text (pr_line p @ ''\<newline>'')) (take (nat n) (concat pages))
         \<and> (arg_limit (parseArgs argv) = None \<or> arg_limit (parseArgs argv) = Some NaN
              \<or> arg_limit (parseArgs argv) = Some (Num 0) \<longrightarrow> n = 10)"
proof -
  have s1: "stdout_out s1 = stdout_out s"
    using resolve_stdout [of w s] assms(2) by simp
  have "main w h argv s = (Inr (), print_pulls (js_slice0 (concat pages) (Num n)) s1)"
    using assms(1-4) by (simp add: main_listing listPRs_def)
  moreover have "js_slice0 (concat pages) (Num n) = take (nat n) (concat pages)"
    using assms(5) by (simp add: js_slice0_def)
  ultimately have "fst (main w h argv s) = Inr ()"
    and "stdout_out (snd (main w h argv s))
             = stdout_out s @ map (\<lambda>p. Text (pr_line p @ ''\<newline>'')) (take (nat n) (concat pages))"
    by (simp_all add: print_pulls_stdout s1)
  moreover have "n = 10"
    if "arg_limit (parseArgs argv) = None \<or> arg_limit (parseArgs argv) = Some NaN
              \<or> arg_limit (parseArgs argv) = Some (Num 0)"
    using that assms(4) by (auto simp: limit_or_default_def)
  ultimately show ?thesis
    by blast
qed

theorem listing_prints_first_n_witness:
  "stdout_out (snd (main (plain_world GhFails) quiet_review [''--list-prs'', ''--state'', ''open'', ''--limit'', ''2'']
                      (start_proc [''GITHUB_TOKEN'' \<mapsto> ''ghp_1''])))
     = [Text ''#11 Add parser by @ann\<newline>'', Text ''#12 Fix typo by @bob\<newline>'']
   \<and> fst (main (plain_world GhFails) quiet_review [''--list-prs'', ''--state'', ''open'', ''--limit'', ''2'']
                      (start_proc [''GITHUB_TOKEN'' \<mapsto> ''ghp_1''])) = Inr ()"
proof -
  let ?argv = "[''--list-prs'', ''--state'', ''open'', ''--limit'', ''2'']"
  let ?s = "start_proc [''GITHUB_TOKEN'' \<mapsto> ''ghp_1'']"
  let ?w = "plain_world GhFails"
  have p: "parseArgs ?argv = no_args\<lparr>arg_listPrs := True, arg_state := Some ''open'', arg_limit := Some (Num 2)\<rparr>"
    by (simp add: parse_list_state_limit or_default_def parseInt_examples)
  have a1: "arg_listPrs (parseArgs ?argv)"
    by (simp add: p no_args_def)
  have a3: "pulls_list ?w (pulls_request ''ghp_1'' (start_proc [''GITHUB_TOKEN'' \<mapsto> ''ghp_1'', ''GITHUB_ACTION'' \<mapsto> ''local''])
              (target_owner (parseArgs ?argv) ?s) (target_repo (parseArgs ?argv) ?s)
              (or_default (arg_state (parseArgs ?argv)) ''open'')) = Inr [take 3 five_pulls, drop 3 five_pulls]"
    by (simp add: plain_world_def)
  have a4: "limit_or_default (arg_limit (parseArgs ?argv)) = Num 2"
    by (simp add: p no_args_def limit_or_default_def)
  have a5: "(0::int) < 2"
    by simp
  have five: "take (nat 2) (concat [take 3 five_pulls, drop 3 five_pulls]) = take 2 five_pulls"
    by simp
  have lines: "map (\<lambda>p. Text (pr_line p @ ''\<newline>'')) (take 2 five_pulls)
      = [Text ''#11 Add parser by @ann\<newline>'', Text ''#12 Fix typo by @bob\<newline>'']"
    by (simp add: five_pulls_def pr_line_def js_string_of_int_def nat_digits_step nat_digits_small
        digit_char_simps)
  have quiet: "stdout_out ?s = []"
    by (simp add: start_proc_def)
  from listing_prints_first_n [OF a1 resolve_with_token a3 a4 a5, of quiet_review]
  have "fst (main ?w quiet_review ?argv ?s) = Inr ()"
    and "stdout_out (snd (main ?w quiet_review ?argv ?s))
          = stdout_out ?s @ map (\<lambda>p. Text (pr_line p @ ''\<newline>''))
              (take (nat 2) (concat [take 3 five_pulls, drop 3 five_pulls]))"
    by blast+
  then have "fst (main ?w quiet_review ?argv ?s) = Inr ()"
    and "stdout_out (snd (main ?w quiet_review ?argv ?s))
          = [] @ [Text ''#11 Add parser by @ann\<newline>'', Text ''#12 Fix typo by @bob\<newline>'']"
    unfolding five lines quiet by blast+
  then show ?thesis
    by simp
qed

section \<open>The review flow: what holds\<close>



text \<open>
  Claim C9. When the credential does not resolve, \<open>reviewPR\<close> stops there with that
  error, whatever the review collaborator is: it is not run. When the credential resolves,
  there is one environment, in which \<open>DEBUG\<close> is \<open>1\<close>, such that for every
  collaborator what \<open>reviewPR\<close> adds to the two streams is what the collaborator
  writes when run in that environment (followed on the standard output by the
  confirmation of a capture), the outcome, without a capture, is the outcome of the
  collaborator run in that environment, and the environment of the process afterwards is
  that environment: so the collaborator is run, once, with \<open>DEBUG\<close> set to \<open>1\<close>,
  whatever the arguments and the environment before are.
\<close>

theorem reviewPR_debug_flag:
  "(\<forall>e0 s1. resolveGitHubToken w s = (Inl e0, s1)
        \<longrightarrow> (\<forall>h. reviewPR w h prNumber isDry ownr rep outArg s = (Inl e0, s1)))
   \<and> (\<forall>token s1. resolveGitHubToken w s = (Inr token, s1)
        \<longrightarrow> (\<exists>e. e ''DEBUG'' = Some ''1''
              \<and> (\<forall>h. env (snd (reviewPR w h prNumber isDry ownr rep outArg s)) = e
                    \<and> stderr_out (snd (reviewPR w h prNumber isDry ownr rep outArg s))
                        = stderr_out s1 @ writes_to Stderr (fst (h e))
                    \<and> (\<exists>rest. stdout_out (snd (reviewPR w h prNumber isDry ownr rep outArg s))
                                = stdout_out s1 @ writes_to Stdout (fst (h e)) @ rest)
                    \<and> (\<not> out_truthy outArg
                          \<longrightarrow> fst (reviewPR w h prNumber isDry ownr rep outArg s) = snd (h e)))))"
proof (intro conjI allI impI)
  fix e0 s1 h
  assume "resolveGitHubToken w s = (Inl e0, s1)"
  then show "reviewPR w h prNumber isDry ownr rep outArg s = (Inl e0, s1)"
    by (rule reviewPR_no_credential)
next
  fix token s1
  assume r: "resolveGitHubToken w s = (Inr token, s1)"
  let ?e = "env (set_review_env prNumber isDry ownr rep s1)"
  have "?e ''DEBUG'' = Some ''1''"
    by (rule set_review_env_debug)
  moreover have "env (snd (reviewPR w h prNumber isDry ownr rep outArg s)) = ?e
      \<and> stderr_out (snd (reviewPR w h prNumber isDry ownr rep outArg s))
          = stderr_out s1 @ writes_to Stderr (fst (h ?e))
      \<and> (\<exists>rest. stdout_out (snd (reviewPR w h prNumber isDry ownr rep outArg s))
                  = stdout_out s1 @ writes_to Stdout (fst (h ?e)) @ rest)
      \<and> (\<not> out_truthy outArg \<longrightarrow> fst (reviewPR w h prNumber isDry ownr rep outArg s) = snd (h ?e))"
    for h
    using reviewPR_runs_in [where h = h and prNumber = prNumber and isDry = isDry and ownr = ownr
        and rep = rep and outArg = outArg, OF r]
    by (intro conjI impI)
  ultimately show "\<exists>e. e ''DEBUG'' = Some ''1''
      \<and> (\<forall>h. env (snd (reviewPR w h prNumber isDry ownr rep outArg s)) = e
            \<and> stderr_out (snd (reviewPR w h prNumber isDry ownr rep outArg s))
                = stderr_out s1 @ writes_to Stderr (fst (h e))
            \<and> (\<exists>rest. stdout_out (snd (reviewPR w h prNumber isDry ownr rep outArg s))
                        = stdout_out s1 @ writes_to Stdout (fst (h e)) @ rest)
            \<and> (\<not> out_truthy outArg \<longrightarrow> fst (reviewPR w h prNumber isDry ownr rep outArg s) = snd (h e)))"
    by blast
qed

theorem reviewPR_debug_flag_witness:
  "env (start_proc [''GITHUB_TOKEN'' \<mapsto> ''ghp_1'', ''DEBUG'' \<mapsto> ''0'']) ''DEBUG'' = Some ''0''
   \<and> out_truthy None = False
   \<and> fst (reviewPR (plain_world GhFails) debug_probe 7 False ''shawnd'' (Some ''pr-reviewer'') None
            (start_proc [''GITHUB_TOKEN'' \<mapsto> ''ghp_1'', ''DEBUG'' \<mapsto> ''0''])) = Inr ()
   \<and> stderr_out (snd (reviewPR (plain_world GhFails) debug_probe 7 False ''shawnd'' (Some ''pr-reviewer'') None
            (start_proc [''GITHUB_TOKEN'' \<mapsto> ''ghp_1'', ''DEBUG'' \<mapsto> ''0'']))) = [Text ''DEBUG=1'']
   \<and> env (snd (reviewPR (plain_world GhFails) debug_probe 7 False ''shawnd'' (Some ''pr-reviewer'') None
            (start_proc [''GITHUB_TOKEN'' \<mapsto> ''ghp_1'', ''DEBUG'' \<mapsto> ''0'']))) ''DEBUG'' = Some ''1''
   \<and> fst (reviewPR (plain_world GhFails) debug_probe 7 False ''shawnd'' (Some ''pr-reviewer'') None
            (start_proc [''DEBUG'' \<mapsto> ''0''])) = Inl (NoCredentialError no_token_message)
   \<and> stderr_out (snd (reviewPR (plain_world GhFails) debug_probe 7 False ''shawnd'' (Some ''pr-reviewer'') None
            (start_proc [''DEBUG'' \<mapsto> ''0'']))) = []"
proof -
  let ?w = "plain_world GhFails"
  let ?s = "start_proc [''GITHUB_TOKEN'' \<mapsto> ''ghp_1'', ''DEBUG'' \<mapsto> ''0'']"
  let ?t = "start_proc [''DEBUG'' \<mapsto> ''0'']"
  let ?t1 = "(start_proc [''DEBUG'' \<mapsto> ''0'', ''GITHUB_ACTION'' \<mapsto> ''local''])\<lparr>gh_calls := 1\<rparr>"
  let ?run = "reviewPR ?w debug_probe 7 False ''shawnd'' (Some ''pr-reviewer'') None ?s"
  note D = reviewPR_debug_flag [of ?w ?s 7 False "''shawnd''" "Some ''pr-reviewer''" None]
  note E = reviewPR_debug_flag [of ?w ?t 7 False "''shawnd''" "Some ''pr-reviewer''" None]
  have before: "env ?s ''DEBUG'' = Some ''0''"
    by (simp add: start_proc_def)
  have o: "out_truthy None = False"
    by (simp add: out_truthy_def)
  have r: "resolveGitHubToken ?w ?s = (Inr ''ghp_1'', mark_local ?s)"
    by (rule resolve_explicit) (simp_all add: start_proc_def)
  have q: "stderr_out ?s = []"
    by (simp add: start_proc_def)
  from D r obtain e where e: "e ''DEBUG'' = Some ''1''"
    and run: "env (snd ?run) = e"
      "stderr_out (snd ?run) = stderr_out (mark_local ?s) @ writes_to Stderr (fst (debug_probe e))"
      "\<not> out_truthy None \<longrightarrow> fst ?run = snd (debug_probe e)"
    by blast
  have p: "debug_probe e = ([(Stderr, Text ''DEBUG=1'')], Inr ())"
    by (simp add: debug_probe_def e)
  have a: "fst ?run = Inr ()"
    using run(3) by (simp add: o p)
  have b: "stderr_out (snd ?run) = [Text ''DEBUG=1'']"
    using run(2) by (simp add: q p writes_to_def)
  have c: "env (snd ?run) ''DEBUG'' = Some ''1''"
    using run(1) e by simp
  have f: "resolveGitHubToken ?w ?t = (Inl (NoCredentialError no_token_message), ?t1)"
    by (simp add: resolveGitHubToken_def loadDotEnvIfExists_def execSync_gh_def plain_world_def
        start_proc_def truthy_def Let_def)
  with E have "reviewPR ?w debug_probe 7 False ''shawnd'' (Some ''pr-reviewer'') None ?t
                 = (Inl (NoCredentialError no_token_message), ?t1)"
    by blast
  then have d: "fst (reviewPR ?w debug_probe 7 False ''shawnd'' (Some ''pr-reviewer'') None ?t)
                  = Inl (NoCredentialError no_token_message)"
    and g: "stderr_out (snd (reviewPR ?w debug_probe 7 False ''shawnd'' (Some ''pr-reviewer'') None ?t)) = []"
    by (simp_all add: start_proc_def)
  from before o a b c d g show ?thesis
    by blast
qed

section \<open>The default transcript path: what holds\<close>

text \<open>
  Claim C8. In a working directory as \<open>process.cwd()\<close> reports it, and for a
  pull-request number that is a safe integer (below \<open>2 ^ 53\<close> in absolute value, where
  \<open>String\<close> prints the decimal digits): the sanitized pull-request number is the
  decimal digits of the number and nothing else; when the output is enabled without a path
  (the flag alone, or a blank string) the transcript path is \<open>dry/pr-\<close>, those digits
  and \<open>.txt\<close> under the working directory; and the invocation
  \<open>--pr 42 --dry-run --out\<close>, when the credential resolves and \<open>fs\<close> does not
  fail, creates \<open>dry\<close> under the working directory and writes everything the review
  wrote to the file \<open>dry/pr-42.txt\<close> there, then prints the confirmation naming
  \<open>dry/pr-42.txt\<close>.
\<close>

theorem default_transcript_path:
  assumes "is_cwd (cwd w)" and "\<bar>n\<bar> < 2 ^ 53"
  shows "list_all is_digit (sanitizedPrNum n) \<and> sanitizedPrNum n = nat_digits (nat \<bar>n\<bar>)
    \<and> transcript_path w n (Some (OutBool True)) = under_cwd w (''dry/pr-'' @ sanitizedPrNum n @ ''.txt'')
    \<and> (js_trim p = []
          \<longrightarrow> transcript_path w n (Some (OutPath p)) = under_cwd w (''dry/pr-'' @ sanitizedPrNum n @ ''.txt''))
    \<and> (\<forall>token s1 writes outcome.
          resolveGitHubToken w s = (Inr token, s1)
          \<and> \<not> fs_denied w (under_cwd w ''dry'')
          \<and> \<not> fs_denied w (under_cwd w ''dry/pr-42.txt'')
          \<and> h (env (set_review_env 42 True
                      (target_owner (parseArgs [''--pr'', ''42'', ''--dry-run'', ''--out'']) s)
                      (target_repo (parseArgs [''--pr'', ''42'', ''--dry-run'', ''--out'']) s) s1))
              = (writes, outcome)
          \<longrightarrow> fst (main w h [''--pr'', ''42'', ''--dry-run'', ''--out''] s) = outcome
            \<and> fs_log (snd (main w h [''--pr'', ''42'', ''--dry-run'', ''--out''] s))
                = fs_log s @ [Mkdir (under_cwd w ''dry''),
                              WriteFile (under_cwd w ''dry/pr-42.txt'') (transcript_of writes)]
            \<and> stdout_out (snd (main w h [''--pr'', ''42'', ''--dry-run'', ''--out''] s))
                = stdout_out s @ writes_to Stdout writes
                    @ [Text ''\<newline>[dry-run] Saved output to dry/pr-42.txt\<newline>''])"
proof -
  let ?argv = "[''--pr'', ''42'', ''--dry-run'', ''--out'']"
  let ?out = "Some (OutBool True)"
  have digits: "list_all is_digit (sanitizedPrNum n) \<and> sanitizedPrNum n = nat_digits (nat \<bar>n\<bar>)"
    by (simp add: sanitized_digits nat_digits_all_digits)
  have flag: "transcript_path w n (Some (OutBool True)) = under_cwd w (''dry/pr-'' @ sanitizedPrNum n @ ''.txt'')"
    using assms(1) by (simp add: transcript_path_def default_out_path_under)
  have blank: "transcript_path w n (Some (OutPath p)) = under_cwd w (''dry/pr-'' @ sanitizedPrNum n @ ''.txt'')"
    if "js_trim p = []"
    using assms(1) that by (simp add: transcript_path_def default_out_path_under)
  have p42: "transcript_path w 42 ?out = under_cwd w ''dry/pr-42.txt''"
    using assms(1) by (simp add: transcript_path_def default_out_path_under sanitized_42)
  have d42: "path_dirname (transcript_path w 42 ?out) = under_cwd w ''dry''"
    using assms(1) by (simp add: transcript_path_def default_out_dir)
  have l42: "saved_line w (transcript_path w 42 ?out) = Text ''\<newline>[dry-run] Saved output to dry/pr-42.txt\<newline>''"
    using assms(1) by (simp add: transcript_path_def saved_line_def default_out_relative sanitized_42)
  have m: "main w h ?argv s
      = reviewPR w h 42 True (target_owner (parseArgs ?argv) s) (target_repo (parseArgs ?argv) s) ?out s"
    by (subst main_review [of ?argv 42]) (simp_all add: parse_pr_dry_out no_args_def)
  have run: "fst (main w h ?argv s) = outcome
     \<and> fs_log (snd (main w h ?argv s))
          = fs_log s @ [Mkdir (under_cwd w ''dry''), WriteFile (under_cwd w ''dry/pr-42.txt'') (transcript_of writes)]
     \<and> stdout_out (snd (main w h ?argv s))
          = stdout_out s @ writes_to Stdout writes @ [Text ''\<newline>[dry-run] Saved output to dry/pr-42.txt\<newline>'']"
    if r: "resolveGitHubToken w s = (Inr token, s1)"
      and f1: "\<not> fs_denied w (under_cwd w ''dry'')"
      and f2: "\<not> fs_denied w (under_cwd w ''dry/pr-42.txt'')"
      and c: "h (env (set_review_env 42 True (target_owner (parseArgs ?argv) s)
                        (target_repo (parseArgs ?argv) s) s1)) = (writes, outcome)"
    for token s1 writes outcome
  proof -
    have o: "out_truthy ?out"
      by (simp add: out_truthy_def)
    have g1: "\<not> fs_denied w (path_dirname (transcript_path w 42 ?out))"
      using f1 by (simp add: d42)
    have g2: "\<not> fs_denied w (transcript_path w 42 ?out)"
      using f2 by (simp add: p42)
    note E = reviewPR_capture_effects [where handlePullRequest = h, OF r o g1 g2 c]
    show ?thesis
      using E unfolding m p42 d42 [unfolded p42] l42 [unfolded p42] by blast
  qed
  from digits flag blank run show ?thesis
    by blast
qed

theorem default_transcript_path_witness:
  "is_cwd (cwd (plain_world GhFails)) \<and> \<bar>- 7 :: int\<bar> < 2 ^ 53 \<and> \<bar>42 :: int\<bar> < 2 ^ 53
   \<and> transcript_path (plain_world GhFails) (- 7) (Some (OutBool True)) = ''/home/u/repo/dry/pr-7.txt''
   \<and> transcript_path (plain_world GhFails) 42 (Some (OutPath ''  '')) = ''/home/u/repo/dry/pr-42.txt''
   \<and> fst (main (plain_world GhFails) quiet_review [''--pr'', ''42'', ''--dry-run'', ''--out'']
            (start_proc [''GITHUB_TOKEN'' \<mapsto> ''ghp_1''])) = Inr ()
   \<and> fs_log (snd (main (plain_world GhFails) quiet_review [''--pr'', ''42'', ''--dry-run'', ''--out'']
            (start_proc [''GITHUB_TOKEN'' \<mapsto> ''ghp_1''])))
       = [Mkdir ''/home/u/repo/dry'',
          WriteFile ''/home/u/repo/dry/pr-42.txt'' ''Reviewing\<newline>1 warning\<newline>'']
   \<and> stdout_out (snd (main (plain_world GhFails) quiet_review [''--pr'', ''42'', ''--dry-run'', ''--out'']
            (start_proc [''GITHUB_TOKEN'' \<mapsto> ''ghp_1''])))
       = [Text ''Reviewing\<newline>'', Text ''\<newline>[dry-run] Saved output to dry/pr-42.txt\<newline>'']"
proof -
  let ?w = "plain_world GhFails"
  let ?s = "start_proc [''GITHUB_TOKEN'' \<mapsto> ''ghp_1'']"
  let ?s1 = "start_proc [''GITHUB_TOKEN'' \<mapsto> ''ghp_1'', ''GITHUB_ACTION'' \<mapsto> ''local'']"
  let ?argv = "[''--pr'', ''42'', ''--dry-run'', ''--out'']"
  let ?ws = "[(Stdout, Text ''Reviewing\<newline>''), (Stderr, Text ''1 warning\<newline>'')]"
  have c: "is_cwd (cwd ?w)"
    by (simp add: example_cwd)
  have s7: "sanitizedPrNum (- 7) = ''7''"
    by (simp add: sanitized_digits nat_digits_small digit_char_simps)
  have r: "resolveGitHubToken ?w ?s = (Inr ''ghp_1'', ?s1)"
    by (rule resolve_with_token)
  have h: "quiet_review (env (set_review_env 42 True (target_owner (parseArgs ?argv) ?s)
               (target_repo (parseArgs ?argv) ?s) ?s1)) = (?ws, Inr ())"
    by (simp add: quiet_review_def)
  have t: "transcript_of ?ws = ''Reviewing\<newline>1 warning\<newline>''"
    by (simp add: transcript_of_def List.map_filter_def)
  have o: "writes_to Stdout ?ws = [Text ''Reviewing\<newline>'']"
    by (simp add: writes_to_def)
  have e: "fs_log ?s = []" "stdout_out ?s = []"
    by (simp_all add: start_proc_def)
  have small: "\<bar>- 7 :: int\<bar> < 2 ^ 53" "\<bar>42 :: int\<bar> < 2 ^ 53"
    by simp_all
  note A = default_transcript_path [OF c small(1), of "[]" ?s quiet_review]
  note B = default_transcript_path [OF c small(2), of "''  ''" ?s quiet_review]
  from A have a: "transcript_path ?w (- 7) (Some (OutBool True)) = ''/home/u/repo/dry/pr-7.txt''"
    by (simp add: s7 example_under)
  from B example_cwd(2)
  have b: "transcript_path ?w 42 (Some (OutPath ''  '')) = ''/home/u/repo/dry/pr-42.txt''"
    by (simp add: sanitized_42 example_under)
  from B r h have run: "fst (main ?w quiet_review ?argv ?s) = Inr ()
     \<and> fs_log (snd (main ?w quiet_review ?argv ?s))
          = fs_log ?s @ [Mkdir (under_cwd ?w ''dry''), WriteFile (under_cwd ?w ''dry/pr-42.txt'') (transcript_of ?ws)]
     \<and> stdout_out (snd (main ?w quiet_review ?argv ?s))
          = stdout_out ?s @ writes_to Stdout ?ws @ [Text ''\<newline>[dry-run] Saved output to dry/pr-42.txt\<newline>'']"
    by (simp del: not_None_eq)
  show ?thesis
    using c small a b run unfolding t o e example_under by simp
qed

end
